theory Spec2Isabelle
  imports Complex_Main "HOL-Library.Product_Lexorder" "HOL-Library.List_Lexorder"
    "HOL-Library.Char_ord" "HOL-Library.Multiset"
begin

section \<open>Values held in a table cell\<close>

text \<open>
  \<open>app.py\<close> works on pandas data frames whose cells are dynamically typed Python values.
  A cell is one of: a missing value \<open>nan\<close>, the missing timestamp \<open>NaT\<close>, a Python
  \<open>int\<close>, a finite \<open>float\<close> (carried as the rational it denotes), a \<open>str\<close>, or a
  \<open>Timestamp\<close> of which only the calendar date is read (\<open>birth_date.date()\<close>).
  \<open>None\<close> is no cell of a table read from a file; the one place that passes it is the
  call of \<open>calculate_age\<close> for a table without birth dates, where \<open>pd.isna\<close> treats it
  as it treats \<open>nan\<close>.

  A \<open>str\<close> is a list of characters; each \<open>char\<close> stands for one code point below 256,
  so \<open>len\<close> is \<open>length\<close>.
\<close>

record date =
  year :: int
  month :: int
  day :: int

datatype cell =
    NaN
  | NaT
  | PyInt int
  | PyFloat rat
  | PyStr string
  | Timestamp date

datatype py_error = TypeError | IndexError | KeyError | IOError

text \<open>\<open>pd.isna\<close> on a scalar.\<close>

fun isna :: "cell \<Rightarrow> bool" where
  "isna NaN = True"
| "isna NaT = True"
| "isna _ = False"

section \<open>What the library and the runtime supply\<close>

text \<open>
  The text of a \<open>float\<close> or a \<open>Timestamp\<close>, the parsers behind \<open>pd.to_datetime\<close> and
  \<open>pd.to_numeric\<close>, and \<open>pd.read_csv\<close> are code of pandas and of the Python runtime, not
  of \<open>app.py\<close>. They are taken as parameters, collected in one record:
  \<^item> \<open>fmt\<close>: \<open>str(x)\<close> for a cell that is a \<open>float\<close> or a \<open>Timestamp\<close>;
  \<^item> \<open>to_datetime\<close>: \<open>pd.to_datetime(s)\<close> for one string \<open>s\<close>; it raises, returns
    \<open>NaT\<close>, or returns a \<open>Timestamp\<close>;
  \<^item> \<open>to_datetime_coerce\<close>: \<open>pd.to_datetime(column, errors='coerce')\<close>; \<open>None\<close> when
    the call raises, else the conversion it applies to the cells of that column (it may
    depend on the whole column, as the format inferred from it does);
  \<^item> \<open>to_numeric\<close>: the number \<open>pd.to_numeric\<close> reads from a cell that is not already
    one, \<open>None\<close> when there is none;
  \<^item> \<open>read_csv\<close>: the table read from a file name, or the exception raised.

  A column of a frame has a dtype. The operations of the source tell three kinds apart:
  \<open>datetime64\<close>, the numeric dtypes (\<open>int64\<close> and \<open>float64\<close>; whether a number is an
  \<open>int\<close> or a \<open>float\<close> is read from the cell), and \<open>object\<close>.
\<close>

datatype parsed = Raises | ParsedNaT | Parsed date

type_synonym row = "string \<rightharpoonup> cell"

datatype dtype = Numeric | Object | Datetime64

record frame =
  columns :: "string list"
  dtypes :: "string \<rightharpoonup> dtype"
  rows :: "row list"

record pandas =
  fmt :: "cell \<Rightarrow> string"
  to_datetime :: "string \<Rightarrow> parsed"
  to_datetime_coerce :: "cell list \<Rightarrow> (cell \<Rightarrow> cell) option"
  to_numeric :: "cell \<Rightarrow> rat option"
  read_csv :: "string \<Rightarrow> py_error + frame"

subsection \<open>Strings\<close>

text \<open>
  \<open>str.strip()\<close> removes leading and trailing white space; \<open>str.isspace\<close> holds, below
  code point 256, for 9 to 13, 28 to 32, 133 and 160.
\<close>

definition is_space :: "char \<Rightarrow> bool" where
  "is_space c =
     (let n = (of_char c :: nat)
      in (9 \<le> n \<and> n \<le> 13) \<or> (28 \<le> n \<and> n \<le> 32) \<or> n = 133 \<or> n = 160)"

definition strip :: "string \<Rightarrow> string" where
  "strip s = rev (dropWhile is_space (rev (dropWhile is_space s)))"

text \<open>\<open>str.lower()\<close>, below code point 256: A to Z, and 192 to 222 except 215.\<close>

definition lower_char :: "char \<Rightarrow> char" where
  "lower_char c =
     (let n = (of_char c :: nat)
      in if (65 \<le> n \<and> n \<le> 90) \<or> (192 \<le> n \<and> n \<le> 222 \<and> n \<noteq> 215)
         then char_of (n + 32) else c)"

definition lower :: "string \<Rightarrow> string" where
  "lower s = map lower_char s"

text \<open>\<open>str(n)\<close> for a Python \<open>int\<close>: decimal digits, with a minus sign when negative.\<close>

definition digit_char :: "nat \<Rightarrow> char" where
  "digit_char d = char_of (48 + d)"

fun digits :: "nat \<Rightarrow> string" where
  "digits n = (if n < 10 then [digit_char n] else digits (n div 10) @ [digit_char (n mod 10)])"

declare digits.simps [simp del]

definition str_int :: "int \<Rightarrow> string" where
  "str_int i = (if i < 0 then CHR ''-'' # digits (nat (- i)) else digits (nat i))"

text \<open>
  \<open>str(x)\<close> and \<open>Series.astype(str)\<close>, cell by cell.
\<close>

fun py_str :: "pandas \<Rightarrow> cell \<Rightarrow> string" where
  "py_str L (PyStr s) = s"
| "py_str L (PyInt n) = str_int n"
| "py_str L NaN = ''nan''"
| "py_str L NaT = ''NaT''"
| "py_str L c = fmt L c"

section \<open>\<open>validate_unit_holder_id\<close>\<close>

text \<open>
  The argument is the text typed into the search box. \<open>not unit_holder_id\<close> holds
  exactly for the empty string. The result is the pair the source returns: the flag, and
  either the reason or the cleaned identifier.
\<close>

definition validate_unit_holder_id :: "string \<Rightarrow> bool \<times> string" where
  "validate_unit_holder_id unit_holder_id =
     (if unit_holder_id = [] then (False, ''Please enter a Unit Holder ID'')
      else
        let unit_holder_clean = strip unit_holder_id
        in if length unit_holder_clean < 3
           then (False, ''Unit Holder ID seems too short (currently ''
                          @ str_int (int (length unit_holder_clean)) @ '' characters)'')
           else (True, unit_holder_clean))"

section \<open>\<open>calculate_age\<close>\<close>

text \<open>
  \<open>today.year - birth_date.year - ((today.month, today.day) < (birth_date.month,
  birth_date.day))\<close>: the tuples compare lexicographically and the Boolean counts as 0
  or 1. \<open>date.today()\<close> is the parameter \<open>today\<close>.
\<close>

definition age_on :: "date \<Rightarrow> date \<Rightarrow> int" where
  "age_on today birth_date =
     year today - year birth_date
       - (if (month today, day today) < (month birth_date, day birth_date) then 1 else 0)"

text \<open>
  The result is a Python value: the string \<open>"N/A"\<close> or an \<open>int\<close>. Inside the \<open>try\<close>,
  a value that is neither a string nor a timestamp has no \<open>date()\<close> method, and the
  \<open>AttributeError\<close> is caught. A string that \<open>pd.to_datetime\<close> turns into \<open>NaT\<close> passed
  the \<open>pd.isna\<close> test as a string; \<open>NaT.date()\<close> is \<open>NaT\<close>, whose \<open>year\<close>, \<open>month\<close> and
  \<open>day\<close> are \<open>nan\<close>, so the arithmetic yields \<open>nan\<close> without raising.
\<close>

definition calculate_age :: "pandas \<Rightarrow> date \<Rightarrow> cell \<Rightarrow> cell" where
  "calculate_age L today birth_date =
     (if isna birth_date then PyStr ''N/A''
      else case birth_date of
          PyStr s \<Rightarrow>
            (case to_datetime L s of
               Raises \<Rightarrow> PyStr ''N/A''
             | ParsedNaT \<Rightarrow> NaN
             | Parsed d \<Rightarrow> PyInt (age_on today d))
        | Timestamp d \<Rightarrow> PyInt (age_on today d)
        | _ \<Rightarrow> PyStr ''N/A'')"

section \<open>Data frames\<close>

text \<open>
  A frame has its column labels in order, the dtype of each column, and its rows in
  order; a row maps each label to its cell. \<open>pd.DataFrame()\<close> is the frame with no
  column and no row. Row labels (the index) are not modelled: the source addresses rows
  by position only (\<open>iloc\<close>) and writes files with \<open>index=False\<close>.
\<close>

definition empty_frame :: frame where
  "empty_frame = \<lparr>columns = [], dtypes = Map.empty, rows = []\<rparr>"

text \<open>The cell of a row under a label; the source reads only labels it has tested for.\<close>

definition cell_of :: "row \<Rightarrow> string \<Rightarrow> cell" where
  "cell_of r c = (case r c of Some v \<Rightarrow> v | None \<Rightarrow> NaN)"

text \<open>\<open>c in df.columns\<close>.\<close>

definition has_column :: "frame \<Rightarrow> string \<Rightarrow> bool" where
  "has_column df c = (c \<in> set (columns df))"

text \<open>\<open>df[c].dtype\<close>; the source reads only columns it has tested for.\<close>

definition column_dtype :: "frame \<Rightarrow> string \<Rightarrow> dtype" where
  "column_dtype df c = (case dtypes df c of Some t \<Rightarrow> t | None \<Rightarrow> Object)"

text \<open>
  \<open>df[c] = values\<close>, where the values have the dtype \<open>t\<close> and the value of each row is
  computed from that row: an existing column is overwritten in place, a new one is
  appended as the last column.
\<close>

definition setitem :: "string \<Rightarrow> dtype \<Rightarrow> (row \<Rightarrow> cell) \<Rightarrow> frame \<Rightarrow> frame" where
  "setitem c t f df =
     \<lparr>columns = (if c \<in> set (columns df) then columns df else columns df @ [c]),
      dtypes = (dtypes df)(c \<mapsto> t),
      rows = map (\<lambda>r. r(c \<mapsto> f r)) (rows df)\<rparr>"

text \<open>\<open>df[mask]\<close>: the rows at which the Boolean mask holds, in order.\<close>

definition getitem_mask :: "(row \<Rightarrow> bool) \<Rightarrow> frame \<Rightarrow> frame" where
  "getitem_mask p df =
     \<lparr>columns = columns df, dtypes = dtypes df, rows = filter p (rows df)\<rparr>"

text \<open>\<open>df.iloc[[-1]]\<close>: the one-row frame of the last row; \<open>IndexError\<close> on no rows.\<close>

definition iloc_last :: "frame \<Rightarrow> py_error + frame" where
  "iloc_last df =
     (if rows df = [] then Inl IndexError
      else Inr \<lparr>columns = columns df, dtypes = dtypes df, rows = [last (rows df)]\<rparr>)"

subsection \<open>\<open>sort_values(['Year', 'Month_numeric'], ascending=[True, True])\<close>\<close>

text \<open>
  pandas orders the rows by the first key, then the second, each ascending with the
  missing values of that key last (\<open>na_position='last'\<close>), and keeps rows with equal keys
  in their order. After \<open>pd.to_numeric\<close> a key column holds numbers; a key column read
  from the file as it is may hold texts as well. Numbers are ordered by value, texts by
  code point, and in a column that holds both every number stands before every text; the
  sort does not raise on such a column. Timestamps never stand in a key column of a
  loaded table; they are ordered by date, before the texts, and a column that holds
  timestamps together with numbers has no order: the sort raises \<open>TypeError\<close>.
\<close>

fun num_of :: "cell \<Rightarrow> rat option" where
  "num_of (PyInt n) = Some (of_int n)"
| "num_of (PyFloat q) = Some q"
| "num_of _ = None"

fun is_number :: "cell \<Rightarrow> bool" where
  "is_number (PyInt n) = True"
| "is_number (PyFloat q) = True"
| "is_number _ = False"

fun is_timestamp :: "cell \<Rightarrow> bool" where
  "is_timestamp (Timestamp d) = True"
| "is_timestamp _ = False"

definition column_sortable :: "cell list \<Rightarrow> bool" where
  "column_sortable cs = (\<not> (list_ex is_number cs \<and> list_ex is_timestamp cs))"

text \<open>
  The sort key of one cell: its class (0 for a number or a timestamp, 1 for a text, 2 for
  a missing value), then the value of a number, the date of a timestamp and the
  characters of a text.
\<close>

type_synonym cell_key = "nat \<times> rat \<times> (int \<times> int \<times> int) \<times> string"

fun key_of :: "cell \<Rightarrow> cell_key" where
  "key_of (PyInt n) = (0, of_int n, (0, 0, 0), [])"
| "key_of (PyFloat q) = (0, q, (0, 0, 0), [])"
| "key_of (Timestamp d) = (0, 0, (year d, month d, day d), [])"
| "key_of (PyStr s) = (1, 0, (0, 0, 0), s)"
| "key_of _ = (2, 0, (0, 0, 0), [])"

definition chrono_key :: "row \<Rightarrow> cell_key \<times> cell_key" where
  "chrono_key r = (key_of (cell_of r ''Year''), key_of (cell_of r ''Month_numeric''))"

definition keys_sortable :: "frame \<Rightarrow> bool" where
  "keys_sortable df =
     (column_sortable (map (\<lambda>r. cell_of r ''Year'') (rows df))
      \<and> column_sortable (map (\<lambda>r. cell_of r ''Month_numeric'') (rows df)))"

definition sort_values :: "frame \<Rightarrow> py_error + frame" where
  "sort_values df =
     (if keys_sortable df
      then Inr \<lparr>columns = columns df, dtypes = dtypes df,
                rows = sort_key chrono_key (rows df)\<rparr>
      else Inl TypeError)"

text \<open>A frame is in chronological order when its rows ascend in that key.\<close>

definition chronological :: "frame \<Rightarrow> bool" where
  "chronological df = sorted (map chrono_key (rows df))"

text \<open>
  The guard every function of the source puts before the sort:
  \<open>if 'Year' in df.columns and 'Month_numeric' in df.columns\<close>.
\<close>

definition sort_chronologically :: "frame \<Rightarrow> py_error + frame" where
  "sort_chronologically df =
     (if has_column df ''Year'' \<and> has_column df ''Month_numeric''
      then sort_values df else Inr df)"

section \<open>The query layer\<close>

subsection \<open>\<open>search_by_unit_holder_id\<close>\<close>

text \<open>The trimmed string form that both sides of the comparison are brought to.\<close>

definition id_text :: "pandas \<Rightarrow> cell \<Rightarrow> string" where
  "id_text L c = strip (py_str L c)"

definition search_by_unit_holder_id ::
  "pandas \<Rightarrow> frame \<Rightarrow> cell \<Rightarrow> py_error + (frame \<times> frame)" where
  "search_by_unit_holder_id L df unit_holder_id =
     (if \<not> has_column df ''Unit Holder ID'' then Inr (empty_frame, empty_frame)
      else
        let df_copy = setitem ''Unit Holder ID'' Object
                        (\<lambda>r. PyStr (id_text L (cell_of r ''Unit Holder ID''))) df;
            unit_holder_id = id_text L unit_holder_id;
            all_results = getitem_mask
                            (\<lambda>r. cell_of r ''Unit Holder ID'' = PyStr unit_holder_id) df_copy
        in if length (rows all_results) = 0 then Inr (empty_frame, empty_frame)
           else
             (case sort_chronologically all_results of
                Inl e \<Rightarrow> Inl e
              | Inr all_results \<Rightarrow>
                  (case iloc_last all_results of
                     Inl e \<Rightarrow> Inl e
                   | Inr latest_record \<Rightarrow> Inr (latest_record, all_results))))"

subsection \<open>\<open>get_withdrawal_records\<close>\<close>

text \<open>
  \<open>df['Withdrawals'] != 0\<close>, cell by cell: a number differs from 0 when its value
  does; \<open>nan\<close>, a string and a timestamp all differ from 0.
\<close>

fun ne_zero :: "cell \<Rightarrow> bool" where
  "ne_zero (PyInt n) = (n \<noteq> 0)"
| "ne_zero (PyFloat q) = (q \<noteq> 0)"
| "ne_zero _ = True"

text \<open>
  \<open>df['Age'] = df['birth_date'].apply(calculate_age)\<close>. \<open>Series.apply\<close> calls the
  function on each cell and infers the dtype of the column from the values returned:
  \<open>int64\<close> when all are \<open>int\<close>, \<open>float64\<close> when they are \<open>int\<close> and \<open>nan\<close> (each \<open>int\<close>
  becomes the \<open>float\<close> of the same value), \<open>object\<close> as soon as one of them is the string
  \<open>"N/A"\<close> (the values are kept as returned). On a column with no cell the function is
  not called, and the result has the dtype of the column it was applied to.
\<close>

fun is_int :: "cell \<Rightarrow> bool" where
  "is_int (PyInt n) = True"
| "is_int _ = False"

fun to_float :: "cell \<Rightarrow> cell" where
  "to_float (PyInt n) = PyFloat (of_int n)"
| "to_float c = c"

definition numeric_values :: "cell list \<Rightarrow> bool" where
  "numeric_values vs = list_all (\<lambda>v. is_number v \<or> v = NaN) vs"

definition apply_dtype :: "dtype \<Rightarrow> cell list \<Rightarrow> dtype" where
  "apply_dtype t vs =
     (if vs = [] then t else if numeric_values vs then Numeric else Object)"

definition apply_value :: "cell list \<Rightarrow> cell \<Rightarrow> cell" where
  "apply_value vs v =
     (if numeric_values vs \<and> \<not> list_all is_int vs then to_float v else v)"

definition add_age :: "pandas \<Rightarrow> date \<Rightarrow> frame \<Rightarrow> frame" where
  "add_age L today df =
     (let ages = map (\<lambda>r. calculate_age L today (cell_of r ''birth_date'')) (rows df)
      in setitem ''Age'' (apply_dtype (column_dtype df ''birth_date'') ages)
           (\<lambda>r. apply_value ages (calculate_age L today (cell_of r ''birth_date''))) df)"

definition get_withdrawal_records :: "pandas \<Rightarrow> date \<Rightarrow> frame \<Rightarrow> py_error + frame" where
  "get_withdrawal_records L today df =
     (if \<not> has_column df ''Withdrawals'' then Inr empty_frame
      else
        let withdrawal_records = getitem_mask (\<lambda>r. ne_zero (cell_of r ''Withdrawals'')) df;
            withdrawal_records =
              (if has_column withdrawal_records ''birth_date''
               then add_age L today withdrawal_records else withdrawal_records)
        in sort_chronologically withdrawal_records)"

subsection \<open>\<open>get_retiree_records\<close>\<close>

text \<open>
  \<open>df_with_age['Age'] != "N/A"\<close> holds at every cell that is not that string, whatever
  the dtype of the column. \<open>numeric_ages['Age'] >= 60\<close>: a \<open>datetime64\<close> column cannot be
  compared with the integer 60 and the comparison raises \<open>TypeError\<close>, also when the
  column has no cell; on a column holding Python objects the comparison is made cell by
  cell, and a string (or a timestamp) against the integer 60 raises \<open>TypeError\<close>;
  \<open>nan >= 60\<close> is false.
\<close>

fun comparable :: "cell \<Rightarrow> bool" where
  "comparable (PyInt n) = True"
| "comparable (PyFloat q) = True"
| "comparable NaN = True"
| "comparable _ = False"

fun ge_int :: "cell \<Rightarrow> int \<Rightarrow> bool" where
  "ge_int (PyInt n) k = (k \<le> n)"
| "ge_int (PyFloat q) k = (of_int k \<le> q)"
| "ge_int _ k = False"

definition getitem_ge :: "string \<Rightarrow> int \<Rightarrow> frame \<Rightarrow> py_error + frame" where
  "getitem_ge c k df =
     (if column_dtype df c = Datetime64 then Inl TypeError
      else if list_all (\<lambda>r. comparable (cell_of r c)) (rows df)
      then Inr (getitem_mask (\<lambda>r. ge_int (cell_of r c) k) df)
      else Inl TypeError)"

definition get_retiree_records :: "pandas \<Rightarrow> date \<Rightarrow> frame \<Rightarrow> py_error + frame" where
  "get_retiree_records L today df =
     (if \<not> has_column df ''birth_date'' then Inr empty_frame
      else
        let df_with_age = add_age L today df;
            numeric_ages = getitem_mask (\<lambda>r. cell_of r ''Age'' \<noteq> PyStr ''N/A'') df_with_age
        in case getitem_ge ''Age'' 60 numeric_ages of
             Inl e \<Rightarrow> Inl e
           | Inr retiree_records \<Rightarrow> sort_chronologically retiree_records)"

section \<open>\<open>load_data\<close>\<close>

text \<open>\<open>df[c].astype(str).str.strip()\<close>, as applied to the \<open>Social Security #\<close> column.\<close>

definition clean_social_security :: "pandas \<Rightarrow> frame \<Rightarrow> frame" where
  "clean_social_security L df =
     (if has_column df ''Social Security #''
      then setitem ''Social Security #'' Object
             (\<lambda>r. PyStr (strip (py_str L (cell_of r ''Social Security #'')))) df
      else df)"

text \<open>
  The loop over \<open>date_columns\<close>: the first candidate that is a column and that
  \<open>pd.to_datetime(..., errors='coerce')\<close> converts without raising is overwritten by its
  conversion and copied to \<open>birth_date\<close>, and the loop stops; a candidate whose
  conversion raises is skipped. The converted column is a \<open>datetime64\<close> column, also
  when it has no cell; it holds timestamps and \<open>NaT\<close> only.
\<close>

definition date_columns :: "string list" where
  "date_columns = [''Date_of_Birth'', ''combined'', ''DOB'', ''Birth_Date'']"

fun as_datetime :: "cell \<Rightarrow> cell" where
  "as_datetime (Timestamp d) = Timestamp d"
| "as_datetime _ = NaT"

fun standardize_birth_date :: "pandas \<Rightarrow> string list \<Rightarrow> frame \<Rightarrow> frame" where
  "standardize_birth_date L [] df = df"
| "standardize_birth_date L (col # cols) df =
     (if has_column df col then
        (case to_datetime_coerce L (map (\<lambda>r. cell_of r col) (rows df)) of
           None \<Rightarrow> standardize_birth_date L cols df
         | Some conv \<Rightarrow>
             setitem ''birth_date'' Datetime64 (\<lambda>r. cell_of r col)
               (setitem col Datetime64 (\<lambda>r. as_datetime (conv (cell_of r col))) df))
      else standardize_birth_date L cols df)"

text \<open>
  \<open>pd.to_numeric(..., errors='coerce')\<close>, cell by cell: a number is kept, a missing
  value stays missing, anything else becomes the number read from it or \<open>nan\<close>.
\<close>

definition to_numeric_coerce :: "pandas \<Rightarrow> cell \<Rightarrow> cell" where
  "to_numeric_coerce L c =
     (case c of
        PyInt n \<Rightarrow> PyInt n
      | PyFloat q \<Rightarrow> PyFloat q
      | NaN \<Rightarrow> NaN
      | NaT \<Rightarrow> NaN
      | _ \<Rightarrow> (case to_numeric L c of Some q \<Rightarrow> PyFloat q | None \<Rightarrow> NaN))"

definition convert_year :: "pandas \<Rightarrow> frame \<Rightarrow> frame" where
  "convert_year L df =
     (if has_column df ''Year''
      then setitem ''Year'' Numeric (\<lambda>r. to_numeric_coerce L (cell_of r ''Year'')) df
      else df)"

definition month_map :: "(string \<times> int) list" where
  "month_map =
     [(''jan'', 1), (''january'', 1),
      (''feb'', 2), (''february'', 2),
      (''mar'', 3), (''march'', 3),
      (''apr'', 4), (''april'', 4),
      (''may'', 5),
      (''jun'', 6), (''june'', 6),
      (''jul'', 7), (''july'', 7),
      (''aug'', 8), (''august'', 8),
      (''sep'', 9), (''september'', 9),
      (''oct'', 10), (''october'', 10),
      (''nov'', 11), (''november'', 11),
      (''dec'', 12), (''december'', 12)]"

text \<open>
  \<open>df['Month'].astype(str).str.lower().str.strip().map(month_map)\<close> followed by
  \<open>pd.to_numeric\<close>: a text that is no key of the dictionary gives \<open>nan\<close>.
\<close>

definition month_numeric :: "pandas \<Rightarrow> cell \<Rightarrow> cell" where
  "month_numeric L c =
     to_numeric_coerce L
       (case map_of month_map (strip (lower (py_str L c))) of
          Some k \<Rightarrow> PyInt k
        | None \<Rightarrow> NaN)"

definition handle_month :: "pandas \<Rightarrow> frame \<Rightarrow> frame" where
  "handle_month L df =
     (if has_column df ''Month''
      then setitem ''Month_numeric'' Numeric (\<lambda>r. month_numeric L (cell_of r ''Month''))
             (setitem ''Month_original'' Object
                (\<lambda>r. PyStr (py_str L (cell_of r ''Month''))) df)
      else df)"

text \<open>\<open>pd.to_numeric(df['Withdrawals'], errors='coerce').fillna(0)\<close>.\<close>

definition fillna_zero :: "cell \<Rightarrow> cell" where
  "fillna_zero c = (if isna c then PyFloat 0 else c)"

definition clean_withdrawals :: "pandas \<Rightarrow> frame \<Rightarrow> frame" where
  "clean_withdrawals L df =
     (if has_column df ''Withdrawals''
      then setitem ''Withdrawals'' Numeric
             (\<lambda>r. fillna_zero (to_numeric_coerce L (cell_of r ''Withdrawals''))) df
      else df)"

text \<open>The statements of \<open>load_data\<close> between \<open>pd.read_csv\<close> and \<open>return\<close>, in order.\<close>

definition normalize :: "pandas \<Rightarrow> frame \<Rightarrow> py_error + frame" where
  "normalize L df =
     (let df = clean_social_security L df;
          df = standardize_birth_date L date_columns df;
          df = convert_year L df;
          df = handle_month L df
      in case sort_chronologically df of
           Inl e \<Rightarrow> Inl e
         | Inr df \<Rightarrow> Inr (clean_withdrawals L df))"

text \<open>
  \<open>load_data\<close> itself. The argument \<open>listing\<close> is what \<open>os.listdir('.')\<close> returns. Any
  exception inside the \<open>try\<close> ends in \<open>return pd.DataFrame(), ""\<close>. The cache decorator
  and the messages shown to the user are not part of the result.
\<close>

definition endswith :: "string \<Rightarrow> string \<Rightarrow> bool" where
  "endswith s suffix = (length suffix \<le> length s \<and> drop (length s - length suffix) s = suffix)"

definition load_data :: "pandas \<Rightarrow> string list \<Rightarrow> frame \<times> string" where
  "load_data L listing =
     (let csv_files = filter (\<lambda>f. endswith f ''.csv'') listing
      in if csv_files = [] then (empty_frame, '''')
         else
           let file_to_use = (if ''Combined.csv'' \<in> set csv_files then ''Combined.csv''
                              else hd csv_files)
           in case read_csv L file_to_use of
                Inl e \<Rightarrow> (empty_frame, '''')
              | Inr df \<Rightarrow>
                  (case normalize L df of
                     Inl e \<Rightarrow> (empty_frame, '''')
                   | Inr df \<Rightarrow> (df, file_to_use)))"

section \<open>The export of the lookup tab\<close>

text \<open>
  \<open>export = records.copy(); export = export[df.columns]\<close>: the columns of the loaded
  table, in its order; a label that the records lack raises \<open>KeyError\<close>. Then
  \<open>export['Month'] = export['Month_original']\<close> when that column exists. The same four
  statements stand before each of the download buttons. The text written by
  \<open>to_csv(index=False)\<close> is pandas' and is not modelled.
\<close>

definition getitem_columns :: "string list \<Rightarrow> frame \<Rightarrow> py_error + frame" where
  "getitem_columns cs df =
     (if set cs \<subseteq> set (columns df)
      then Inr \<lparr>columns = cs, dtypes = dtypes df |` set cs,
                rows = map (\<lambda>r. r |` set cs) (rows df)\<rparr>
      else Inl KeyError)"

definition export_records :: "frame \<Rightarrow> frame \<Rightarrow> py_error + frame" where
  "export_records df records =
     (case getitem_columns (columns df) records of
        Inl e \<Rightarrow> Inl e
      | Inr export_data \<Rightarrow>
          Inr (if has_column export_data ''Month_original''
               then setitem ''Month'' (column_dtype export_data ''Month_original'')
                      (\<lambda>r. cell_of r ''Month_original'') export_data
               else export_data))"

text \<open>
  \<open>records_lookup_tab\<close>, without the rendering: what the page shows for the text in the
  search box. Nothing happens on an empty box; an invalid identifier ends in the error
  box with the reason; otherwise the search runs on the cleaned identifier, and a found
  record comes with the frame behind ``Download Latest Record'' and, when the history
  has more than one row, the frame behind ``Download All Records''.
\<close>

datatype lookup_page =
    No_search
  | Error_box string
  | No_record string
  | Record_found frame frame frame "frame option"
  | Failure py_error

definition records_lookup_tab :: "pandas \<Rightarrow> frame \<Rightarrow> string \<Rightarrow> lookup_page" where
  "records_lookup_tab L df unit_holder_input =
     (if unit_holder_input = [] then No_search
      else
        case validate_unit_holder_id unit_holder_input of
          (is_valid, result) \<Rightarrow>
            if \<not> is_valid then Error_box result
            else
              (case search_by_unit_holder_id L df (PyStr result) of
                 Inl e \<Rightarrow> Failure e
               | Inr (latest_record, all_records) \<Rightarrow>
                   if length (rows latest_record) = 0 then No_record result
                   else
                     (case export_records df latest_record of
                        Inl e \<Rightarrow> Failure e
                      | Inr export_latest \<Rightarrow>
                          if length (rows all_records) > 1
                          then (case export_records df all_records of
                                  Inl e \<Rightarrow> Failure e
                                | Inr export_all \<Rightarrow>
                                    Record_found latest_record all_records export_latest
                                      (Some export_all))
                          else Record_found latest_record all_records export_latest None)))"

section \<open>The query layer on shared objects\<close>

text \<open>
  A data frame is a mutable object and \<open>df[c] = ...\<close> changes it in place. To state what
  a call does to the table it is given, the three query functions are traced a second
  time on an explicit store: the store lists the frame objects, a reference is a
  position in it, \<open>copy()\<close>, \<open>df[mask]\<close>, \<open>sort_values\<close>, \<open>iloc\<close> and \<open>pd.DataFrame()\<close>
  each allocate a new object, and an item assignment overwrites the object it is applied
  to. A function returns its value (or the exception) and the store it leaves.
\<close>

type_synonym ref = nat
type_synonym store = "frame list"

definition alloc :: "frame \<Rightarrow> store \<Rightarrow> ref \<times> store" where
  "alloc f s = (length s, s @ [f])"

definition obj_copy :: "ref \<Rightarrow> store \<Rightarrow> ref \<times> store" where
  "obj_copy a s = alloc (s ! a) s"

definition obj_setitem ::
  "ref \<Rightarrow> string \<Rightarrow> dtype \<Rightarrow> (row \<Rightarrow> cell) \<Rightarrow> store \<Rightarrow> store" where
  "obj_setitem a c t f s = s[a := setitem c t f (s ! a)]"

definition obj_getitem_mask :: "(row \<Rightarrow> bool) \<Rightarrow> ref \<Rightarrow> store \<Rightarrow> ref \<times> store" where
  "obj_getitem_mask p a s = alloc (getitem_mask p (s ! a)) s"

definition obj_sort_chronologically :: "ref \<Rightarrow> store \<Rightarrow> (py_error + ref) \<times> store" where
  "obj_sort_chronologically a s =
     (if has_column (s ! a) ''Year'' \<and> has_column (s ! a) ''Month_numeric''
      then (case sort_values (s ! a) of
              Inl e \<Rightarrow> (Inl e, s)
            | Inr f \<Rightarrow> (let (b, s) = alloc f s in (Inr b, s)))
      else (Inr a, s))"

definition obj_search_by_unit_holder_id ::
  "pandas \<Rightarrow> ref \<Rightarrow> cell \<Rightarrow> store \<Rightarrow> (py_error + (ref \<times> ref)) \<times> store" where
  "obj_search_by_unit_holder_id L df unit_holder_id s =
     (if \<not> has_column (s ! df) ''Unit Holder ID''
      then (let (e1, s) = alloc empty_frame s; (e2, s) = alloc empty_frame s
            in (Inr (e1, e2), s))
      else
        let (df_copy, s) = obj_copy df s;
            s = obj_setitem df_copy ''Unit Holder ID'' Object
                  (\<lambda>r. PyStr (id_text L (cell_of r ''Unit Holder ID''))) s;
            unit_holder_id = id_text L unit_holder_id;
            (selected, s) = obj_getitem_mask
                              (\<lambda>r. cell_of r ''Unit Holder ID'' = PyStr unit_holder_id)
                              df_copy s;
            (all_results, s) = obj_copy selected s
        in if length (rows (s ! all_results)) = 0
           then (let (e1, s) = alloc empty_frame s; (e2, s) = alloc empty_frame s
                 in (Inr (e1, e2), s))
           else
             (case obj_sort_chronologically all_results s of
                (Inl e, s) \<Rightarrow> (Inl e, s)
              | (Inr all_results, s) \<Rightarrow>
                  (case iloc_last (s ! all_results) of
                     Inl e \<Rightarrow> (Inl e, s)
                   | Inr f \<Rightarrow>
                       (let (latest_record, s) = alloc f s
                        in (Inr (latest_record, all_results), s)))))"

definition obj_add_age :: "pandas \<Rightarrow> date \<Rightarrow> ref \<Rightarrow> store \<Rightarrow> store" where
  "obj_add_age L today a s =
     (let ages = map (\<lambda>r. calculate_age L today (cell_of r ''birth_date'')) (rows (s ! a))
      in obj_setitem a ''Age'' (apply_dtype (column_dtype (s ! a) ''birth_date'') ages)
           (\<lambda>r. apply_value ages (calculate_age L today (cell_of r ''birth_date''))) s)"

definition obj_get_withdrawal_records ::
  "pandas \<Rightarrow> date \<Rightarrow> ref \<Rightarrow> store \<Rightarrow> (py_error + ref) \<times> store" where
  "obj_get_withdrawal_records L today df s =
     (if \<not> has_column (s ! df) ''Withdrawals''
      then (let (e, s) = alloc empty_frame s in (Inr e, s))
      else
        let (selected, s) = obj_getitem_mask (\<lambda>r. ne_zero (cell_of r ''Withdrawals'')) df s;
            (withdrawal_records, s) = obj_copy selected s;
            s = (if has_column (s ! withdrawal_records) ''birth_date''
                 then obj_add_age L today withdrawal_records s else s)
        in obj_sort_chronologically withdrawal_records s)"

definition obj_getitem_ge ::
  "string \<Rightarrow> int \<Rightarrow> ref \<Rightarrow> store \<Rightarrow> (py_error + ref) \<times> store" where
  "obj_getitem_ge c k a s =
     (case getitem_ge c k (s ! a) of
        Inl e \<Rightarrow> (Inl e, s)
      | Inr f \<Rightarrow> (let (b, s) = alloc f s in (Inr b, s)))"

definition obj_get_retiree_records ::
  "pandas \<Rightarrow> date \<Rightarrow> ref \<Rightarrow> store \<Rightarrow> (py_error + ref) \<times> store" where
  "obj_get_retiree_records L today df s =
     (if \<not> has_column (s ! df) ''birth_date''
      then (let (e, s) = alloc empty_frame s in (Inr e, s))
      else
        let (df_with_age, s) = obj_copy df s;
            s = obj_add_age L today df_with_age s;
            (selected, s) = obj_getitem_mask (\<lambda>r. cell_of r ''Age'' \<noteq> PyStr ''N/A'')
                              df_with_age s;
            (numeric_ages, s) = obj_copy selected s
        in case obj_getitem_ge ''Age'' 60 numeric_ages s of
             (Inl e, s) \<Rightarrow> (Inl e, s)
           | (Inr selected, s) \<Rightarrow>
               (let (retiree_records, s) = obj_copy selected s
                in obj_sort_chronologically retiree_records s))"

text \<open>What a returned reference, or pair of references, denotes in a store.\<close>

definition deref :: "store \<Rightarrow> py_error + ref \<Rightarrow> py_error + frame" where
  "deref s res = (case res of Inl e \<Rightarrow> Inl e | Inr a \<Rightarrow> Inr (s ! a))"

definition deref2 :: "store \<Rightarrow> py_error + (ref \<times> ref) \<Rightarrow> py_error + (frame \<times> frame)" where
  "deref2 s res = (case res of Inl e \<Rightarrow> Inl e | Inr (a, b) \<Rightarrow> Inr (s ! a, s ! b))"

section \<open>Notions used to state the properties\<close>

text \<open>
  The row of the copy that \<open>search_by_unit_holder_id\<close> works on (the identifier replaced
  by its trimmed string form), the test it applies, and the rows it selects.
\<close>

definition id_matches :: "pandas \<Rightarrow> cell \<Rightarrow> row \<Rightarrow> bool" where
  "id_matches L q r = (id_text L (cell_of r ''Unit Holder ID'') = id_text L q)"

definition id_cleaned :: "pandas \<Rightarrow> row \<Rightarrow> row" where
  "id_cleaned L r = r(''Unit Holder ID'' \<mapsto> PyStr (id_text L (cell_of r ''Unit Holder ID'')))"

definition matching_rows :: "pandas \<Rightarrow> frame \<Rightarrow> cell \<Rightarrow> row list" where
  "matching_rows L df q = map (id_cleaned L) (filter (id_matches L q) (rows df))"

text \<open>The cells of one column, top to bottom.\<close>

definition column_cells :: "string \<Rightarrow> frame \<Rightarrow> cell list" where
  "column_cells c df = map (\<lambda>r. cell_of r c) (rows df)"

text \<open>The values that \<open>calculate_age\<close> returns on the \<open>birth_date\<close> column of a table.\<close>

definition computed_ages :: "pandas \<Rightarrow> date \<Rightarrow> frame \<Rightarrow> cell list" where
  "computed_ages L today df =
     map (\<lambda>r. calculate_age L today (cell_of r ''birth_date'')) (rows df)"

text \<open>A row whose \<open>Age\<close> is a number of at least 60.\<close>

definition aged_60 :: "row \<Rightarrow> bool" where
  "aged_60 r = (case num_of (cell_of r ''Age'') of Some q \<Rightarrow> 60 \<le> q | None \<Rightarrow> False)"

text \<open>The table \<open>load_data\<close> has built when it reaches its sort.\<close>

definition before_sort :: "pandas \<Rightarrow> frame \<Rightarrow> frame" where
  "before_sort L raw =
     handle_month L (convert_year L
       (standardize_birth_date L date_columns (clean_social_security L raw)))"

text \<open>
  The withdrawals value of a row as a number, and the row as \<open>get_withdrawal_records\<close>
  returns it: with the computed \<open>Age\<close> when the table has a \<open>birth_date\<close> column, in
  the form the \<open>Age\<close> column of the selected rows gives it.
\<close>

definition withdrawals_amount :: "row \<Rightarrow> rat" where
  "withdrawals_amount r =
     (case num_of (cell_of r ''Withdrawals'') of Some q \<Rightarrow> q | None \<Rightarrow> 0)"

definition withdrawal_ages :: "pandas \<Rightarrow> date \<Rightarrow> frame \<Rightarrow> cell list" where
  "withdrawal_ages L today df =
     map (\<lambda>r. calculate_age L today (cell_of r ''birth_date''))
       (filter (\<lambda>r. ne_zero (cell_of r ''Withdrawals'')) (rows df))"

definition with_age :: "pandas \<Rightarrow> date \<Rightarrow> frame \<Rightarrow> row \<Rightarrow> row" where
  "with_age L today df r =
     (if has_column df ''birth_date''
      then r(''Age'' \<mapsto> apply_value (withdrawal_ages L today df)
                          (calculate_age L today (cell_of r ''birth_date'')))
      else r)"

section \<open>Concrete scenarios\<close>

text \<open>
  An instance of the library for the scenarios: every file holds the table \<open>raw\<close>, the
  only text read as a missing timestamp is \<open>NaT\<close>, the only text read as a date is
  \<open>1950-01-01\<close>, and the texts read as numbers are \<open>-50\<close> and \<open>100.5\<close>.
\<close>

definition example_pandas :: "frame \<Rightarrow> pandas" where
  "example_pandas raw =
     \<lparr>fmt = (\<lambda>c. ''?''),
      to_datetime = (\<lambda>s. if s = ''NaT'' then ParsedNaT
                          else if s = ''1950-01-01'' then Parsed \<lparr>year = 1950, month = 1, day = 1\<rparr>
                          else Raises),
      to_datetime_coerce = (\<lambda>col. Some (\<lambda>c. c)),
      to_numeric = (\<lambda>c. if c = PyStr ''-50'' then Some (- 50)
                          else if c = PyStr ''100.5'' then Some (201 / 2) else None),
      read_csv = (\<lambda>f. Inr raw)\<rparr>"

text \<open>
  The scenario of the specification: two rows for the identifier \<open>A1\<close>, December 2022
  and January 2021, listed in the file in that order.
\<close>

definition two_periods_raw :: frame where
  "two_periods_raw =
     \<lparr>columns = [''Unit Holder ID'', ''Year'', ''Month''],
      dtypes = [''Unit Holder ID'' \<mapsto> Object, ''Year'' \<mapsto> Numeric, ''Month'' \<mapsto> Object],
      rows = [[''Unit Holder ID'' \<mapsto> PyStr ''A1'', ''Year'' \<mapsto> PyInt 2022, ''Month'' \<mapsto> PyStr ''Dec''],
              [''Unit Holder ID'' \<mapsto> PyStr ''A1'', ''Year'' \<mapsto> PyInt 2021, ''Month'' \<mapsto> PyStr ''Jan'']]\<rparr>"

text \<open>One row whose identifier is the text \<open>123\<close>.\<close>

definition stored_123 :: frame where
  "stored_123 =
     \<lparr>columns = [''Unit Holder ID''], dtypes = [''Unit Holder ID'' \<mapsto> Object],
      rows = [[''Unit Holder ID'' \<mapsto> PyStr ''123'']]\<rparr>"

text \<open>A file without a month column: identifier \<open>A1\<close> for 2022, then for 2021.\<close>

definition no_month_raw :: frame where
  "no_month_raw =
     \<lparr>columns = [''Unit Holder ID'', ''Year''],
      dtypes = [''Unit Holder ID'' \<mapsto> Object, ''Year'' \<mapsto> Numeric],
      rows = [[''Unit Holder ID'' \<mapsto> PyStr ''A1'', ''Year'' \<mapsto> PyInt 2022],
              [''Unit Holder ID'' \<mapsto> PyStr ''A1'', ''Year'' \<mapsto> PyInt 2021]]\<rparr>"

text \<open>
  A file that holds the header line only, with a column of birth dates: read with every
  column of dtype \<open>object\<close> and no row.
\<close>

definition dated_header_raw :: frame where
  "dated_header_raw =
     \<lparr>columns = [''Unit Holder ID'', ''Year'', ''Month'', ''Withdrawals'', ''Date_of_Birth''],
      dtypes = [''Unit Holder ID'' \<mapsto> Object, ''Year'' \<mapsto> Object, ''Month'' \<mapsto> Object,
                ''Withdrawals'' \<mapsto> Object, ''Date_of_Birth'' \<mapsto> Object],
      rows = []\<rparr>"

text \<open>
  A file whose second row has a month that is no month name: January 2022, then
  ``Smarch'' 2021.
\<close>

definition unknown_month_raw :: frame where
  "unknown_month_raw =
     \<lparr>columns = [''Year'', ''Month''],
      dtypes = [''Year'' \<mapsto> Numeric, ''Month'' \<mapsto> Object],
      rows = [[''Year'' \<mapsto> PyInt 2022, ''Month'' \<mapsto> PyStr ''Jan''],
              [''Year'' \<mapsto> PyInt 2021, ''Month'' \<mapsto> PyStr ''Smarch'']]\<rparr>"

text \<open>
  A file with a withdrawals column holding a missing cell, a text that is no number, a
  negative amount and a positive amount.
\<close>

definition withdrawals_raw :: frame where
  "withdrawals_raw =
     \<lparr>columns = [''Unit Holder ID'', ''Withdrawals''],
      dtypes = [''Unit Holder ID'' \<mapsto> Object, ''Withdrawals'' \<mapsto> Object],
      rows = [[''Unit Holder ID'' \<mapsto> PyStr ''A1'', ''Withdrawals'' \<mapsto> NaN],
              [''Unit Holder ID'' \<mapsto> PyStr ''A2'', ''Withdrawals'' \<mapsto> PyStr ''abc''],
              [''Unit Holder ID'' \<mapsto> PyStr ''A3'', ''Withdrawals'' \<mapsto> PyStr ''-50''],
              [''Unit Holder ID'' \<mapsto> PyStr ''A4'', ''Withdrawals'' \<mapsto> PyStr ''100.5'']]\<rparr>"

text \<open>
  A table with birth dates: 1950, missing, 15 June 2000, and 14 June 1964.
\<close>

definition retirees_table :: frame where
  "retirees_table =
     \<lparr>columns = [''Unit Holder ID'', ''birth_date''],
      dtypes = [''Unit Holder ID'' \<mapsto> Object, ''birth_date'' \<mapsto> Datetime64],
      rows = [[''Unit Holder ID'' \<mapsto> PyStr ''A1'',
               ''birth_date'' \<mapsto> Timestamp \<lparr>year = 1950, month = 1, day = 1\<rparr>],
              [''Unit Holder ID'' \<mapsto> PyStr ''A2'', ''birth_date'' \<mapsto> NaT],
              [''Unit Holder ID'' \<mapsto> PyStr ''A3'',
               ''birth_date'' \<mapsto> Timestamp \<lparr>year = 2000, month = 6, day = 15\<rparr>],
              [''Unit Holder ID'' \<mapsto> PyStr ''A4'',
               ''birth_date'' \<mapsto> Timestamp \<lparr>year = 1964, month = 6, day = 14\<rparr>]]\<rparr>"

text \<open>
  Two files that differ only in the spaces around the identifier of their one row.
\<close>

definition padded_id_raw :: frame where
  "padded_id_raw =
     \<lparr>columns = [''Unit Holder ID'', ''Year'', ''Month''],
      dtypes = [''Unit Holder ID'' \<mapsto> Object, ''Year'' \<mapsto> Numeric, ''Month'' \<mapsto> Object],
      rows = [[''Unit Holder ID'' \<mapsto> PyStr '' A12 '', ''Year'' \<mapsto> PyInt 2021,
               ''Month'' \<mapsto> PyStr ''Jan'']]\<rparr>"

definition plain_id_raw :: frame where
  "plain_id_raw =
     \<lparr>columns = [''Unit Holder ID'', ''Year'', ''Month''],
      dtypes = [''Unit Holder ID'' \<mapsto> Object, ''Year'' \<mapsto> Numeric, ''Month'' \<mapsto> Object],
      rows = [[''Unit Holder ID'' \<mapsto> PyStr ''A12'', ''Year'' \<mapsto> PyInt 2021,
               ''Month'' \<mapsto> PyStr ''Jan'']]\<rparr>"

text \<open>
  A table that is not in chronological order: identifier \<open>A1\<close> for December 2022 and then
  for January 2021, both rows with a withdrawal and a birth date of more than 60 years
  ago.
\<close>

definition unordered_table :: frame where
  "unordered_table =
     \<lparr>columns = [''Unit Holder ID'', ''Year'', ''Month_numeric'', ''Withdrawals'', ''birth_date''],
      dtypes = [''Unit Holder ID'' \<mapsto> Object, ''Year'' \<mapsto> Numeric,
                ''Month_numeric'' \<mapsto> Numeric, ''Withdrawals'' \<mapsto> Numeric,
                ''birth_date'' \<mapsto> Datetime64],
      rows = [[''Unit Holder ID'' \<mapsto> PyStr ''A1'', ''Year'' \<mapsto> PyInt 2022,
               ''Month_numeric'' \<mapsto> PyInt 12, ''Withdrawals'' \<mapsto> PyFloat 50,
               ''birth_date'' \<mapsto> Timestamp \<lparr>year = 1950, month = 1, day = 1\<rparr>],
              [''Unit Holder ID'' \<mapsto> PyStr ''A1'', ''Year'' \<mapsto> PyInt 2021,
               ''Month_numeric'' \<mapsto> PyInt 1, ''Withdrawals'' \<mapsto> PyFloat 20,
               ''birth_date'' \<mapsto> Timestamp \<lparr>year = 1960, month = 3, day = 1\<rparr>]]\<rparr>"

text \<open>
  A table whose birth dates are texts, one of them the text \<open>NaT\<close> and the other read by
  \<open>pd.to_datetime\<close> as 1 January 1950.
\<close>

definition text_dates_table :: frame where
  "text_dates_table =
     \<lparr>columns = [''Unit Holder ID'', ''birth_date''],
      dtypes = [''Unit Holder ID'' \<mapsto> Object, ''birth_date'' \<mapsto> Object],
      rows = [[''Unit Holder ID'' \<mapsto> PyStr ''A1'', ''birth_date'' \<mapsto> PyStr ''1950-01-01''],
              [''Unit Holder ID'' \<mapsto> PyStr ''A2'', ''birth_date'' \<mapsto> PyStr ''NaT'']]\<rparr>"

section \<open>Facts about strings\<close>

lemma hd_rstrip:
  assumes "rev (dropWhile P (rev xs)) \<noteq> []"
  shows "hd (rev (dropWhile P (rev xs))) = hd xs"
  by (metis assms hd_rev last_appendR last_rev rev_is_Nil_conv takeWhile_dropWhile_id)

lemma strip_strip: "strip (strip s) = strip s"
proof -
  define t where "t = dropWhile is_space s"
  define u where "u = rev (dropWhile is_space (rev t))"
  have u: "strip s = u" by (simp add: strip_def t_def u_def)
  have 1: "dropWhile is_space u = u"
  proof (cases "u = []")
    case False
    then have "hd u = hd t" unfolding u_def by (rule hd_rstrip)
    moreover have "t \<noteq> []" using False by (auto simp: u_def)
    then have "\<not> is_space (hd t)" unfolding t_def by (rule hd_dropWhile)
    ultimately show ?thesis using False by (cases u) auto
  qed simp
  have 2: "dropWhile is_space (rev u) = rev u" by (simp add: u_def)
  have "strip u = u" unfolding strip_def by (simp add: 1 2)
  then show ?thesis by (simp add: u)
qed

lemma strip_ab: "strip '' ab '' = ''ab''"
  by code_simp

lemma strip_A123: "strip '' A123 '' = ''A123''"
  by code_simp

lemma strip_A123_clean: "strip ''A123'' = ''A123''"
  by code_simp

lemma str_int_2: "str_int 2 = ''2''"
  by code_simp

section \<open>Identifier validation\<close>

lemma validate_accepts:
  "s \<noteq> [] \<Longrightarrow> 3 \<le> length (strip s) \<Longrightarrow> validate_unit_holder_id s = (True, strip s)"
  by (simp add: validate_unit_holder_id_def Let_def)

text \<open>
  Claim C9. Validation rejects the input exactly when it is empty or its trimmed form
  has fewer than 3 characters. The reason is specific to the cause: a fixed request for
  an identifier on empty input, and otherwise a message that reports the trimmed length.
  On a rejected (non-empty) input the lookup page is the error box with that reason,
  whatever the table holds: no lookup takes place. An accepted input yields its trimmed
  form, the page is the one of a lookup of that trimmed form, and it is never the error
  box.
\<close>

theorem validate_unit_holder_id_contract:
  "(\<not> fst (validate_unit_holder_id s)) = (s = [] \<or> length (strip s) < 3)
   \<and> (s = [] \<longrightarrow> validate_unit_holder_id s = (False, ''Please enter a Unit Holder ID''))
   \<and> (s \<noteq> [] \<and> length (strip s) < 3 \<longrightarrow>
        validate_unit_holder_id s =
          (False, ''Unit Holder ID seems too short (currently ''
                    @ str_int (int (length (strip s))) @ '' characters)'')
        \<and> records_lookup_tab L df s = Error_box (snd (validate_unit_holder_id s)))
   \<and> (\<not> (s = [] \<or> length (strip s) < 3) \<longrightarrow>
        validate_unit_holder_id s = (True, strip s)
        \<and> records_lookup_tab L df s = records_lookup_tab L df (strip s)
        \<and> (\<forall>reason. records_lookup_tab L df s \<noteq> Error_box reason))"
proof -
  have rej: "(\<not> fst (validate_unit_holder_id s)) = (s = [] \<or> length (strip s) < 3)"
    by (simp add: validate_unit_holder_id_def Let_def)
  have empty: "s = [] \<longrightarrow> validate_unit_holder_id s = (False, ''Please enter a Unit Holder ID'')"
    by (simp add: validate_unit_holder_id_def)
  have short: "s \<noteq> [] \<and> length (strip s) < 3 \<longrightarrow>
        validate_unit_holder_id s =
          (False, ''Unit Holder ID seems too short (currently ''
                    @ str_int (int (length (strip s))) @ '' characters)'')
        \<and> records_lookup_tab L df s = Error_box (snd (validate_unit_holder_id s))"
    by (simp add: validate_unit_holder_id_def Let_def records_lookup_tab_def)
  have ok: "\<not> (s = [] \<or> length (strip s) < 3) \<longrightarrow>
        validate_unit_holder_id s = (True, strip s)
        \<and> records_lookup_tab L df s = records_lookup_tab L df (strip s)
        \<and> (\<forall>reason. records_lookup_tab L df s \<noteq> Error_box reason)"
  proof (intro impI conjI allI)
    assume a: "\<not> (s = [] \<or> length (strip s) < 3)"
    then have s: "s \<noteq> []" "3 \<le> length (strip s)" by auto
    then have t: "strip s \<noteq> []" "3 \<le> length (strip (strip s))" by (auto simp: strip_strip)
    show v: "validate_unit_holder_id s = (True, strip s)" using s by (rule validate_accepts)
    have v': "validate_unit_holder_id (strip s) = (True, strip s)"
      using validate_accepts [OF t] by (simp add: strip_strip)
    show "records_lookup_tab L df s = records_lookup_tab L df (strip s)"
      using s t by (simp add: records_lookup_tab_def v v')
    fix reason
    show "records_lookup_tab L df s \<noteq> Error_box reason"
      using s by (simp add: records_lookup_tab_def v split: sum.splits prod.splits)
  qed
  show ?thesis using rej empty short ok by blast
qed

theorem validate_unit_holder_id_contract_witness:
  "validate_unit_holder_id '' ab '' =
     (False, ''Unit Holder ID seems too short (currently 2 characters)'')
   \<and> \<not> fst (validate_unit_holder_id '' ab '')
   \<and> records_lookup_tab (example_pandas empty_frame) empty_frame '' ab '' =
       Error_box ''Unit Holder ID seems too short (currently 2 characters)''
   \<and> validate_unit_holder_id '' A123 '' = (True, ''A123'')
   \<and> records_lookup_tab (example_pandas empty_frame) empty_frame '' A123 '' =
       records_lookup_tab (example_pandas empty_frame) empty_frame ''A123''
   \<and> validate_unit_holder_id [] = (False, ''Please enter a Unit Holder ID'')"
  using validate_unit_holder_id_contract [of "'' ab ''" "example_pandas empty_frame" empty_frame]
    validate_unit_holder_id_contract [of "'' A123 ''" "example_pandas empty_frame" empty_frame]
    validate_unit_holder_id_contract [of "[]" "example_pandas empty_frame" empty_frame]
  by (simp add: strip_ab strip_A123 str_int_2)


section \<open>Facts about frames\<close>

lemma columns_setitem:
  "columns (setitem c t f df) = (if c \<in> set (columns df) then columns df else columns df @ [c])"
  by (simp add: setitem_def)

lemma rows_setitem: "rows (setitem c t f df) = map (\<lambda>r. r(c \<mapsto> f r)) (rows df)"
  by (simp add: setitem_def)

lemma dtypes_setitem: "dtypes (setitem c t f df) = (dtypes df)(c \<mapsto> t)"
  by (simp add: setitem_def)

lemma column_dtype_setitem:
  "column_dtype (setitem c t f df) d = (if d = c then t else column_dtype df d)"
  by (simp add: column_dtype_def setitem_def)

lemma has_column_setitem: "has_column (setitem c t f df) d = (d = c \<or> has_column df d)"
  by (auto simp: has_column_def setitem_def)

lemma column_dtype_getitem_mask: "column_dtype (getitem_mask p df) d = column_dtype df d"
  by (simp add: column_dtype_def getitem_mask_def)

lemma columns_getitem_mask: "columns (getitem_mask p df) = columns df"
  by (simp add: getitem_mask_def)

lemma rows_getitem_mask: "rows (getitem_mask p df) = filter p (rows df)"
  by (simp add: getitem_mask_def)

lemma has_column_getitem_mask: "has_column (getitem_mask p df) d = has_column df d"
  by (simp add: has_column_def getitem_mask_def)

lemma cell_of_upd: "cell_of (r(c \<mapsto> v)) d = (if d = c then v else cell_of r d)"
  by (simp add: cell_of_def)

lemma sort_values_Inr:
  "sort_values df = Inr f \<longleftrightarrow>
     keys_sortable df
     \<and> f = \<lparr>columns = columns df, dtypes = dtypes df, rows = sort_key chrono_key (rows df)\<rparr>"
  by (auto simp: sort_values_def)

lemma sort_values_Inl: "sort_values df = Inl e \<longleftrightarrow> \<not> keys_sortable df \<and> e = TypeError"
  by (auto simp: sort_values_def)

lemma sort_chronologically_sortable:
  "keys_sortable df \<Longrightarrow>
   sort_chronologically df =
     Inr (if has_column df ''Year'' \<and> has_column df ''Month_numeric''
          then \<lparr>columns = columns df, dtypes = dtypes df,
                 rows = sort_key chrono_key (rows df)\<rparr>
          else df)"
  by (simp add: sort_chronologically_def sort_values_def)

lemma sort_chronologically_Inr:
  assumes "sort_chronologically df = Inr f"
  shows "columns f = columns df" and "mset (rows f) = mset (rows df)"
    and "has_column df ''Year'' \<and> has_column df ''Month_numeric'' \<Longrightarrow> chronological f"
    and "has_column df ''Year'' \<and> has_column df ''Month_numeric'' \<Longrightarrow>
           rows f = sort_key chrono_key (rows df)"
    and "\<not> (has_column df ''Year'' \<and> has_column df ''Month_numeric'') \<Longrightarrow> f = df"
  using assms
  by (auto simp: sort_chronologically_def sort_values_def chronological_def split: if_splits)

lemma keys_sortable_getitem_mask: "keys_sortable df \<Longrightarrow> keys_sortable (getitem_mask p df)"
  by (auto simp: keys_sortable_def column_sortable_def getitem_mask_def list_ex_iff)

lemma keys_sortable_setitem:
  "c \<noteq> ''Year'' \<Longrightarrow> c \<noteq> ''Month_numeric'' \<Longrightarrow>
     keys_sortable (setitem c t f df) = keys_sortable df"
  by (simp add: keys_sortable_def setitem_def o_def cell_of_upd)

lemma keys_sortable_sort:
  "keys_sortable \<lparr>columns = cs, dtypes = ts, rows = sort_key k (rows df)\<rparr> = keys_sortable df"
  by (simp add: keys_sortable_def column_sortable_def list_ex_iff)

section \<open>Facts about the search\<close>

lemma search_selected:
  "getitem_mask (\<lambda>r. cell_of r ''Unit Holder ID'' = PyStr (id_text L q))
     (setitem ''Unit Holder ID'' Object
        (\<lambda>r. PyStr (id_text L (cell_of r ''Unit Holder ID''))) df)
   = \<lparr>columns = (if has_column df ''Unit Holder ID'' then columns df
                   else columns df @ [''Unit Holder ID'']),
      dtypes = (dtypes df)(''Unit Holder ID'' \<mapsto> Object),
      rows = matching_rows L df q\<rparr>"
  by (simp add: getitem_mask_def setitem_def matching_rows_def filter_map o_def cell_of_upd
      id_matches_def [abs_def] id_cleaned_def [abs_def] has_column_def)

lemma search_no_column:
  "\<not> has_column df ''Unit Holder ID'' \<Longrightarrow>
   search_by_unit_holder_id L df q = Inr (empty_frame, empty_frame)"
  by (simp add: search_by_unit_holder_id_def)

lemma search_no_match:
  "matching_rows L df q = [] \<Longrightarrow>
   search_by_unit_holder_id L df q = Inr (empty_frame, empty_frame)"
  by (simp add: search_by_unit_holder_id_def Let_def search_selected)

lemma search_match:
  assumes "has_column df ''Unit Holder ID''" and "matching_rows L df q \<noteq> []"
  shows "search_by_unit_holder_id L df q =
     (case sort_chronologically \<lparr>columns = columns df, dtypes = (dtypes df)(''Unit Holder ID'' \<mapsto> Object),
          rows = matching_rows L df q\<rparr> of
        Inl e \<Rightarrow> Inl e
      | Inr h \<Rightarrow> Inr (\<lparr>columns = columns h, dtypes = dtypes h, rows = [last (rows h)]\<rparr>, h))"
proof -
  have ne: "sort_chronologically \<lparr>columns = columns df, dtypes = (dtypes df)(''Unit Holder ID'' \<mapsto> Object),
          rows = matching_rows L df q\<rparr> = Inr h
        \<Longrightarrow> rows h \<noteq> []" for h
    using assms(2) sort_chronologically_Inr(2) [of "\<lparr>columns = columns df, dtypes = (dtypes df)(''Unit Holder ID'' \<mapsto> Object),
          rows = matching_rows L df q\<rparr>" h]
    by auto
  show ?thesis
    using assms ne
    by (auto simp: search_by_unit_holder_id_def Let_def search_selected iloc_last_def
        split: sum.splits)
qed

lemma keys_sortable_matching:
  "keys_sortable df \<Longrightarrow> keys_sortable \<lparr>columns = cs, dtypes = ts, rows = matching_rows L df q\<rparr>"
  by (auto simp: keys_sortable_def column_sortable_def matching_rows_def id_cleaned_def
      list_ex_iff cell_of_def)

lemma has_column_mk: "has_column \<lparr>columns = cs, dtypes = ts, rows = rs\<rparr> c = (c \<in> set cs)"
  by (simp add: has_column_def)

lemma search_result:
  assumes "has_column df ''Unit Holder ID''" and "matching_rows L df q \<noteq> []"
    and "has_column df ''Year'' \<and> has_column df ''Month_numeric'' \<Longrightarrow> keys_sortable df"
  shows "search_by_unit_holder_id L df q =
     (let H = (if has_column df ''Year'' \<and> has_column df ''Month_numeric''
               then sort_key chrono_key (matching_rows L df q) else matching_rows L df q)
      in Inr (\<lparr>columns = columns df, dtypes = (dtypes df)(''Unit Holder ID'' \<mapsto> Object),
               rows = [last H]\<rparr>,
              \<lparr>columns = columns df, dtypes = (dtypes df)(''Unit Holder ID'' \<mapsto> Object),
               rows = H\<rparr>))"
proof (cases "has_column df ''Year'' \<and> has_column df ''Month_numeric''")
  case True
  then have "keys_sortable \<lparr>columns = columns df, dtypes = (dtypes df)(''Unit Holder ID'' \<mapsto> Object),
          rows = matching_rows L df q\<rparr>"
    using assms(3) keys_sortable_matching by blast
  then show ?thesis
    using True by (simp add: search_match [OF assms(1,2)] sort_chronologically_sortable
        has_column_def Let_def)
next
  case False
  then show ?thesis
    by (auto simp: search_match [OF assms(1,2)] sort_chronologically_def has_column_def Let_def)
qed

section \<open>Facts about ages and the two filters\<close>

lemma calculate_age_values:
  "calculate_age L today c = PyStr ''N/A'' \<or> calculate_age L today c = NaN
   \<or> (\<exists>n. calculate_age L today c = PyInt n)"
  by (auto simp: calculate_age_def split: cell.splits parsed.splits)

lemma calculate_age_isna: "isna c \<Longrightarrow> calculate_age L today c = PyStr ''N/A''"
  by (simp add: calculate_age_def)

lemma calculate_age_PyInt:
  "calculate_age L today c = PyInt n \<Longrightarrow>
     \<not> isna c \<and> (\<exists>d. (c = Timestamp d \<or> (\<exists>s. c = PyStr s \<and> to_datetime L s = Parsed d))
                  \<and> n = age_on today d)"
  by (auto simp: calculate_age_def split: cell.splits parsed.splits if_splits)

lemma num_of_apply_value: "num_of (apply_value vs v) = num_of v"
  by (cases v) (auto simp: apply_value_def)

lemma apply_value_text: "(apply_value vs v = PyStr s) = (v = PyStr s)"
  by (cases v) (auto simp: apply_value_def)

lemma apply_value_nan: "(apply_value vs v = NaN) = (v = NaN)"
  by (cases v) (auto simp: apply_value_def)

lemma apply_dtype_datetime: "(apply_dtype t vs = Datetime64) = (vs = [] \<and> t = Datetime64)"
  by (simp add: apply_dtype_def)

lemma rows_add_age:
  "rows (add_age L today df) =
     map (\<lambda>r. r(''Age'' \<mapsto> apply_value (computed_ages L today df)
                              (calculate_age L today (cell_of r ''birth_date''))))
       (rows df)"
  by (simp add: add_age_def Let_def setitem_def computed_ages_def)

lemma columns_add_age:
  "columns (add_age L today df) =
     (if has_column df ''Age'' then columns df else columns df @ [''Age''])"
  by (simp add: add_age_def Let_def setitem_def has_column_def)

lemma column_dtype_add_age:
  "column_dtype (add_age L today df) ''Age'' =
     apply_dtype (column_dtype df ''birth_date'') (computed_ages L today df)"
  by (simp add: add_age_def Let_def column_dtype_setitem computed_ages_def)

lemma has_column_add_age: "has_column (add_age L today df) c = (c = ''Age'' \<or> has_column df c)"
  by (simp add: add_age_def Let_def has_column_setitem)

lemma keys_sortable_add_age: "keys_sortable (add_age L today df) = keys_sortable df"
  by (simp add: add_age_def Let_def keys_sortable_setitem)

lemma age_of_added:
  "r \<in> set (rows (add_age L today df)) \<Longrightarrow>
     cell_of r ''Age'' = apply_value (computed_ages L today df)
                           (calculate_age L today (cell_of r ''birth_date''))"
  by (auto simp: rows_add_age cell_of_def)

text \<open>
  The comparison with 60 raises on the table without rows whose \<open>birth_date\<close> is a
  \<open>datetime64\<close> column, and nowhere else: once the \<open>N/A\<close> rows are dropped, every \<open>Age\<close>
  is a number or \<open>nan\<close>.
\<close>

lemma retiree_comparison:
  "getitem_ge ''Age'' 60 (getitem_mask (\<lambda>r. cell_of r ''Age'' \<noteq> PyStr ''N/A'') (add_age L today df))
   = (if rows df = [] \<and> column_dtype df ''birth_date'' = Datetime64 then Inl TypeError
      else Inr (getitem_mask aged_60 (add_age L today df)))"
proof -
  let ?A = "add_age L today df"
  let ?N = "getitem_mask (\<lambda>r. cell_of r ''Age'' \<noteq> PyStr ''N/A'') ?A"
  have dt: "(column_dtype ?N ''Age'' = Datetime64)
            = (rows df = [] \<and> column_dtype df ''birth_date'' = Datetime64)"
    by (simp add: column_dtype_getitem_mask column_dtype_add_age apply_dtype_datetime
        computed_ages_def)
  have cmp: "list_all (\<lambda>r. comparable (cell_of r ''Age'')) (rows ?N)"
  proof -
    have "comparable (cell_of r ''Age'')" if "r \<in> set (rows ?N)" for r
    proof -
      from that have a: "r \<in> set (rows ?A)" and b: "cell_of r ''Age'' \<noteq> PyStr ''N/A''"
        by (auto simp: rows_getitem_mask)
      let ?v = "calculate_age L today (cell_of r ''birth_date'')"
      have e: "cell_of r ''Age'' = apply_value (computed_ages L today df) ?v"
        using age_of_added [OF a] .
      from b have "?v \<noteq> PyStr ''N/A''" by (simp add: e apply_value_text)
      with calculate_age_values [of L today "cell_of r ''birth_date''"]
      have "?v = NaN \<or> (\<exists>n. ?v = PyInt n)" by blast
      then show ?thesis by (auto simp: e apply_value_def)
    qed
    then show ?thesis by (simp add: list_all_iff)
  qed
  have flt: "filter (\<lambda>r. ge_int (cell_of r ''Age'') 60) (rows ?N) = filter aged_60 (rows ?A)"
  proof -
    have "(cell_of r ''Age'' \<noteq> PyStr ''N/A'' \<and> ge_int (cell_of r ''Age'') 60) = aged_60 r" for r
      by (cases "cell_of r ''Age''") (auto simp: aged_60_def)
    then show ?thesis
      by (simp add: rows_getitem_mask conj_commute cong: filter_cong)
  qed
  have "getitem_mask (\<lambda>r. ge_int (cell_of r ''Age'') 60) ?N = getitem_mask aged_60 ?A"
    using flt by (simp add: getitem_mask_def)
  then show ?thesis
    using cmp dt by (simp add: getitem_ge_def)
qed

lemma get_retiree_records_unfold:
  "has_column df ''birth_date'' \<Longrightarrow>
   get_retiree_records L today df =
     (if rows df = [] \<and> column_dtype df ''birth_date'' = Datetime64 then Inl TypeError
      else sort_chronologically (getitem_mask aged_60 (add_age L today df)))"
  by (simp add: get_retiree_records_def Let_def retiree_comparison)

lemma get_withdrawal_records_unfold:
  "has_column df ''Withdrawals'' \<Longrightarrow>
   get_withdrawal_records L today df =
     sort_chronologically
       (let w = getitem_mask (\<lambda>r. ne_zero (cell_of r ''Withdrawals'')) df
        in if has_column df ''birth_date'' then add_age L today w else w)"
  by (simp add: get_withdrawal_records_def Let_def has_column_getitem_mask)

section \<open>Facts about the loader\<close>

lemma column_cells_setitem:
  "column_cells d (setitem c t f df) =
     (if d = c then map f (rows df) else column_cells d df)"
  by (simp add: column_cells_def setitem_def cell_of_upd o_def)

lemma length_rows_setitem: "length (rows (setitem c t f df)) = length (rows df)"
  by (simp add: setitem_def)

text \<open>Each step of the loader leaves the columns it does not assign as they were.\<close>

lemma clean_social_security_other:
  "d \<noteq> ''Social Security #'' \<Longrightarrow>
     column_cells d (clean_social_security L df) = column_cells d df"
  by (simp add: clean_social_security_def column_cells_setitem)

lemma has_column_clean_social_security:
  "has_column (clean_social_security L df) d = has_column df d"
  by (auto simp: clean_social_security_def has_column_setitem)

lemma standardize_birth_date_other:
  "d \<notin> set cols \<Longrightarrow> d \<noteq> ''birth_date'' \<Longrightarrow>
     column_cells d (standardize_birth_date L cols df) = column_cells d df"
  by (induction cols) (auto simp: column_cells_setitem split: option.splits)

lemma has_column_standardize_birth_date:
  "d \<noteq> ''birth_date'' \<Longrightarrow>
     has_column (standardize_birth_date L cols df) d = has_column df d"
  by (induction cols) (auto simp: has_column_setitem split: option.splits)

lemma convert_year_other:
  "d \<noteq> ''Year'' \<Longrightarrow> column_cells d (convert_year L df) = column_cells d df"
  by (simp add: convert_year_def column_cells_setitem)

lemma has_column_convert_year: "has_column (convert_year L df) d = has_column df d"
  by (auto simp: convert_year_def has_column_setitem)

lemma handle_month_other:
  "d \<noteq> ''Month_original'' \<Longrightarrow> d \<noteq> ''Month_numeric'' \<Longrightarrow>
     column_cells d (handle_month L df) = column_cells d df"
  by (simp add: handle_month_def column_cells_setitem)

lemma has_column_handle_month:
  "has_column (handle_month L df) d =
     (has_column df d \<or> (has_column df ''Month'' \<and> (d = ''Month_original'' \<or> d = ''Month_numeric'')))"
  by (auto simp: handle_month_def has_column_setitem)

lemma has_column_clean_withdrawals: "has_column (clean_withdrawals L df) d = has_column df d"
  by (auto simp: clean_withdrawals_def has_column_setitem)

lemma chrono_key_upd:
  "c \<noteq> ''Year'' \<Longrightarrow> c \<noteq> ''Month_numeric'' \<Longrightarrow> chrono_key (r(c \<mapsto> v)) = chrono_key r"
  by (simp add: chrono_key_def cell_of_def)

lemma chronological_setitem:
  "c \<noteq> ''Year'' \<Longrightarrow> c \<noteq> ''Month_numeric'' \<Longrightarrow>
     chronological (setitem c t f df) = chronological df"
  by (simp add: chronological_def setitem_def o_def chrono_key_upd)

lemma chronological_clean_withdrawals:
  "chronological (clean_withdrawals L df) = chronological df"
  by (simp add: clean_withdrawals_def chronological_setitem)

lemma keys_sortable_clean_withdrawals:
  "keys_sortable (clean_withdrawals L df) = keys_sortable df"
  by (simp add: clean_withdrawals_def keys_sortable_setitem)

text \<open>The shape of a loaded table.\<close>

lemma normalize_Inr:
  "normalize L raw = Inr df \<longleftrightarrow>
     (\<exists>ordered. sort_chronologically (before_sort L raw) = Inr ordered
                \<and> df = clean_withdrawals L ordered)"
  by (auto simp: normalize_def Let_def before_sort_def split: sum.splits)

lemma load_data_cases:
  assumes "load_data L listing = (df, name)"
  shows "df = empty_frame \<or> (\<exists>raw. read_csv L name = Inr raw \<and> normalize L raw = Inr df)"
  using assms
  by (auto simp: load_data_def Let_def split: if_splits sum.splits)

lemma has_column_empty_frame: "\<not> has_column empty_frame c"
  by (simp add: has_column_def empty_frame_def)

lemma normalize_ordered:
  assumes "normalize L raw = Inr df"
    and "has_column df ''Year''" and "has_column df ''Month_numeric''"
  shows "chronological df \<and> keys_sortable df"
proof -
  from assms(1) obtain ordered where
    s: "sort_chronologically (before_sort L raw) = Inr ordered"
    and d: "df = clean_withdrawals L ordered"
    by (auto simp: normalize_Inr)
  have cols: "columns ordered = columns (before_sort L raw)"
    using sort_chronologically_Inr(1) [OF s] .
  have both: "has_column (before_sort L raw) ''Year'' \<and> has_column (before_sort L raw) ''Month_numeric''"
  proof -
    have "has_column ordered ''Year'' \<and> has_column ordered ''Month_numeric''"
      using assms(2,3) by (simp add: d has_column_clean_withdrawals)
    then show ?thesis using cols by (simp add: has_column_def)
  qed
  then have "sort_values (before_sort L raw) = Inr ordered"
    using s by (simp add: sort_chronologically_def)
  then have "keys_sortable ordered"
    by (auto simp: sort_values_Inr keys_sortable_sort)
  moreover have "chronological ordered"
    using sort_chronologically_Inr(3) [OF s both] .
  ultimately show ?thesis
    by (simp add: d chronological_clean_withdrawals keys_sortable_clean_withdrawals)
qed

lemma load_data_ordered:
  assumes "load_data L listing = (df, name)"
    and "has_column df ''Year''" and "has_column df ''Month_numeric''"
  shows "chronological df \<and> keys_sortable df"
  using load_data_cases [OF assms(1)] assms(2,3) normalize_ordered has_column_empty_frame
  by blast

section \<open>Identifier comparison\<close>

lemma set_matching_rows:
  "set (matching_rows L df q) = id_cleaned L ` {r \<in> set (rows df). id_matches L q r}"
  by (auto simp: matching_rows_def)

lemma search_history_rows:
  assumes "search_by_unit_holder_id L df q = Inr (latest, hist)"
    and "has_column df ''Unit Holder ID''"
  shows "mset (rows hist) = mset (matching_rows L df q)"
proof (cases "matching_rows L df q = []")
  case True
  then show ?thesis using assms(1) by (auto simp: search_no_match empty_frame_def)
next
  case False
  then show ?thesis
    using assms(1) sort_chronologically_Inr(2)
    by (auto simp: search_match [OF assms(2) False] split: sum.splits)
qed

lemma id_text_PyStr: "id_text L (PyStr s) = strip s"
  by (simp add: id_text_def)

lemma id_text_PyInt: "id_text L (PyInt n) = strip (str_int n)"
  by (simp add: id_text_def)

lemma strip_123_padded: "strip '' 123 '' = ''123''"
  by code_simp

lemma strip_123: "strip ''123'' = ''123''"
  by code_simp

lemma str_int_123: "str_int 123 = ''123''"
  by code_simp

text \<open>
  Claim C6. The lookup compares the trimmed string form of the stored identifier with the
  trimmed string form of the query: the history holds exactly the rows of the table for
  which the two agree (each with its identifier in that form), and whenever a row agrees
  the search succeeds with that row in the history and a one-row latest record. The
  texts \<open>" 123 "\<close> and \<open>"123"\<close>, and the integer 123 and the text \<open>"123"\<close>, have the same
  trimmed string form.
\<close>

theorem search_compares_trimmed_text:
  "(has_column df ''Unit Holder ID'' \<and> search_by_unit_holder_id L df q = Inr (latest, hist)
      \<longrightarrow> mset (rows hist) =
            mset (map (id_cleaned L)
                   (filter (\<lambda>r. strip (py_str L (cell_of r ''Unit Holder ID'')) = strip (py_str L q))
                      (rows df))))
   \<and> (has_column df ''Unit Holder ID''
        \<and> (has_column df ''Year'' \<and> has_column df ''Month_numeric'' \<longrightarrow> keys_sortable df)
        \<and> r \<in> set (rows df)
        \<and> strip (py_str L (cell_of r ''Unit Holder ID'')) = strip (py_str L q)
      \<longrightarrow> (\<exists>latest hist. search_by_unit_holder_id L df q = Inr (latest, hist)
              \<and> id_cleaned L r \<in> set (rows hist) \<and> length (rows latest) = 1))
   \<and> id_text L (PyStr '' 123 '') = id_text L (PyStr ''123'')
   \<and> id_text L (PyInt 123) = id_text L (PyStr ''123'')"
proof -
  have m: "matching_rows L df q = map (id_cleaned L)
       (filter (\<lambda>r. strip (py_str L (cell_of r ''Unit Holder ID'')) = strip (py_str L q)) (rows df))"
    by (simp add: matching_rows_def id_matches_def [abs_def] id_text_def)
  have 1: "has_column df ''Unit Holder ID'' \<and> search_by_unit_holder_id L df q = Inr (latest, hist)
      \<longrightarrow> mset (rows hist) =
            mset (map (id_cleaned L)
                   (filter (\<lambda>r. strip (py_str L (cell_of r ''Unit Holder ID'')) = strip (py_str L q))
                      (rows df)))"
    using search_history_rows [of L df q latest hist] by (simp add: m)
  have 2: "has_column df ''Unit Holder ID''
        \<and> (has_column df ''Year'' \<and> has_column df ''Month_numeric'' \<longrightarrow> keys_sortable df)
        \<and> r \<in> set (rows df)
        \<and> strip (py_str L (cell_of r ''Unit Holder ID'')) = strip (py_str L q)
      \<longrightarrow> (\<exists>latest hist. search_by_unit_holder_id L df q = Inr (latest, hist)
              \<and> id_cleaned L r \<in> set (rows hist) \<and> length (rows latest) = 1)"
  proof (intro impI, elim conjE)
    assume c: "has_column df ''Unit Holder ID''"
      and n: "has_column df ''Year'' \<and> has_column df ''Month_numeric'' \<longrightarrow> keys_sortable df"
      and r: "r \<in> set (rows df)"
      and e: "strip (py_str L (cell_of r ''Unit Holder ID'')) = strip (py_str L q)"
    have in_m: "id_cleaned L r \<in> set (matching_rows L df q)"
      using r e by (auto simp: m)
    then have ne: "matching_rows L df q \<noteq> []" by auto
    show "\<exists>latest hist. search_by_unit_holder_id L df q = Inr (latest, hist)
              \<and> id_cleaned L r \<in> set (rows hist) \<and> length (rows latest) = 1"
      using n in_m by (simp add: search_result [OF c ne] Let_def)
  qed
  have 3: "id_text L (PyStr '' 123 '') = id_text L (PyStr ''123'')"
    by (simp add: id_text_PyStr strip_123_padded strip_123)
  have 4: "id_text L (PyInt 123) = id_text L (PyStr ''123'')"
    by (simp add: id_text_PyStr id_text_PyInt str_int_123)
  show ?thesis using 1 2 3 4 by blast
qed

theorem search_compares_trimmed_text_witness:
  "(\<exists>latest hist.
      search_by_unit_holder_id (example_pandas empty_frame) stored_123 (PyStr '' 123 '')
        = Inr (latest, hist)
      \<and> [''Unit Holder ID'' \<mapsto> PyStr ''123''] \<in> set (rows hist) \<and> length (rows latest) = 1)
   \<and> (\<exists>latest hist.
      search_by_unit_holder_id (example_pandas empty_frame) stored_123 (PyInt 123)
        = Inr (latest, hist)
      \<and> [''Unit Holder ID'' \<mapsto> PyStr ''123''] \<in> set (rows hist) \<and> length (rows latest) = 1)"
proof -
  let ?L = "example_pandas empty_frame"
  let ?r = "[''Unit Holder ID'' \<mapsto> PyStr ''123'']"
  have c: "has_column stored_123 ''Unit Holder ID''"
    and k: "has_column stored_123 ''Year'' \<and> has_column stored_123 ''Month_numeric''
              \<longrightarrow> keys_sortable stored_123"
    and r: "?r \<in> set (rows stored_123)"
    by (simp_all add: stored_123_def has_column_def)
  have e1: "strip (py_str ?L (cell_of ?r ''Unit Holder ID'')) = strip (py_str ?L (PyStr '' 123 ''))"
    and e2: "strip (py_str ?L (cell_of ?r ''Unit Holder ID'')) = strip (py_str ?L (PyInt 123))"
    by (simp_all add: cell_of_def strip_123 strip_123_padded str_int_123)
  have cl: "id_cleaned ?L ?r = ?r"
    by (simp add: id_cleaned_def cell_of_def id_text_def strip_123)
  show ?thesis
    using search_compares_trimmed_text [of stored_123 ?L "PyStr '' 123 ''" _ _ ?r]
      search_compares_trimmed_text [of stored_123 ?L "PyInt 123" _ _ ?r]
      c k r e1 e2
    by (simp add: cl)
qed

section \<open>The latest record\<close>

lemma month_jan: "map_of month_map (strip (lower ''Jan'')) = Some 1"
  by code_simp
lemma month_dec: "map_of month_map (strip (lower ''Dec'')) = Some 12"
  by code_simp
lemma strip_A1: "strip ''A1'' = ''A1''"
  by code_simp
lemma csv_name: "endswith ''records.csv'' ''.csv''"
  by code_simp

lemmas load_eval = load_data_def normalize_def Let_def clean_social_security_def
  standardize_birth_date.simps date_columns_def convert_year_def handle_month_def
  clean_withdrawals_def sort_chronologically_def sort_values_def keys_sortable_def
  column_sortable_def
  has_column_def setitem_def cell_of_def to_numeric_coerce_def month_numeric_def
  chrono_key_def example_pandas_def

lemma two_periods_loaded:
  "map (\<lambda>r. (cell_of r ''Unit Holder ID'', cell_of r ''Year'', cell_of r ''Month'',
              cell_of r ''Month_original'', cell_of r ''Month_numeric''))
     (rows (fst (load_data (example_pandas two_periods_raw) [''records.csv''])))
   = [(PyStr ''A1'', PyInt 2021, PyStr ''Jan'', PyStr ''Jan'', PyInt 1),
      (PyStr ''A1'', PyInt 2022, PyStr ''Dec'', PyStr ''Dec'', PyInt 12)]"
  by (simp add: load_eval two_periods_raw_def csv_name month_jan month_dec)

lemma chronological_sort:
  "chronological \<lparr>columns = cs, dtypes = ts, rows = sort_key chrono_key rs\<rparr>"
  by (simp add: chronological_def)

lemma chronological_empty_frame: "chronological empty_frame"
  by (simp add: chronological_def empty_frame_def)

lemma sort_chronologically_total:
  assumes "keys_sortable f"
  shows "\<exists>out. sort_chronologically f = Inr out \<and> columns out = columns f
           \<and> mset (rows out) = mset (rows f)
           \<and> (has_column f ''Year'' \<and> has_column f ''Month_numeric'' \<longrightarrow>
                 chronological out \<and> rows out = sort_key chrono_key (rows f))"
  using assms by (simp add: sort_chronologically_sortable chronological_sort)

text \<open>
  Claim C1, as amended. On a table that has the \<open>Year\<close> and \<open>Month_numeric\<close> columns,
  each of them with an order (as they have when they hold numbers and missing values,
  which is how \<open>load_data\<close> leaves them after \<open>to_numeric\<close>), and for an identifier with at
  least one matching row, the search succeeds; the history is the matching rows sorted ascending by (year, month rank), it
  holds every matching row, and the latest record is the last row of that order.
\<close>

theorem search_latest_is_last_in_order:
  assumes "has_column df ''Unit Holder ID''"
    and "has_column df ''Year''" and "has_column df ''Month_numeric''"
    and "keys_sortable df"
    and "matching_rows L df q \<noteq> []"
  shows "\<exists>latest hist.
           search_by_unit_holder_id L df q = Inr (latest, hist)
           \<and> rows hist = sort_key chrono_key (matching_rows L df q)
           \<and> chronological hist
           \<and> mset (rows hist) = mset (matching_rows L df q)
           \<and> rows latest = [last (rows hist)]
           \<and> columns hist = columns df \<and> columns latest = columns df"
  using assms(2,3,4)
  by (simp add: search_result [OF assms(1) assms(5)] Let_def chronological_sort)

theorem search_latest_is_last_in_order_witness:
  "\<exists>latest hist.
     search_by_unit_holder_id (example_pandas two_periods_raw)
       (fst (load_data (example_pandas two_periods_raw) [''records.csv''])) (PyStr ''A1'')
       = Inr (latest, hist)
     \<and> map (\<lambda>r. (cell_of r ''Year'', cell_of r ''Month'')) (rows hist)
         = [(PyInt 2021, PyStr ''Jan''), (PyInt 2022, PyStr ''Dec'')]
     \<and> map (\<lambda>r. (cell_of r ''Year'', cell_of r ''Month'')) (rows latest)
         = [(PyInt 2022, PyStr ''Dec'')]"
proof -
  let ?L = "example_pandas two_periods_raw"
  let ?df = "fst (load_data ?L [''records.csv''])"
  let ?q = "PyStr ''A1''"
  have c: "has_column ?df ''Unit Holder ID''" "has_column ?df ''Year''"
    "has_column ?df ''Month_numeric''" "keys_sortable ?df"
    by (simp_all add: load_eval two_periods_raw_def csv_name month_jan month_dec)
  have m: "map (\<lambda>r. (cell_of r ''Year'', cell_of r ''Month'')) (matching_rows ?L ?df ?q)
             = [(PyInt 2021, PyStr ''Jan''), (PyInt 2022, PyStr ''Dec'')]"
    and k: "map chrono_key (matching_rows ?L ?df ?q)
             = [((0, 2021, (0, 0, 0), []), (0, 1, (0, 0, 0), [])),
                ((0, 2022, (0, 0, 0), []), (0, 12, (0, 0, 0), []))]"
    by (simp_all add: load_eval two_periods_raw_def csv_name month_jan month_dec
        matching_rows_def id_matches_def id_cleaned_def id_text_def strip_A1)
  from m have ne: "matching_rows ?L ?df ?q \<noteq> []" by auto
  have srt: "sort_key chrono_key (matching_rows ?L ?df ?q) = matching_rows ?L ?df ?q"
    by (rule sort_key_id_if_sorted) (simp add: k)
  from search_latest_is_last_in_order [OF c ne]
  obtain latest hist where
    s: "search_by_unit_holder_id ?L ?df ?q = Inr (latest, hist)"
    and h: "rows hist = sort_key chrono_key (matching_rows ?L ?df ?q)"
    and l: "rows latest = [last (rows hist)]"
    by blast
  have h': "map (\<lambda>r. (cell_of r ''Year'', cell_of r ''Month'')) (rows hist)
         = [(PyInt 2021, PyStr ''Jan''), (PyInt 2022, PyStr ''Dec'')]"
    by (simp add: h srt m)
  have l': "map (\<lambda>r. (cell_of r ''Year'', cell_of r ''Month'')) (rows latest)
         = [(PyInt 2022, PyStr ''Dec'')]"
  proof -
    have "rows hist \<noteq> []" using h' by auto
    then have "map (\<lambda>r. (cell_of r ''Year'', cell_of r ''Month'')) (rows latest)
                 = [last (map (\<lambda>r. (cell_of r ''Year'', cell_of r ''Month'')) (rows hist))]"
      by (simp add: l last_map)
    then show ?thesis by (simp only: h') simp
  qed
  from s h' l' show ?thesis
    by - (rule exI [of _ latest], rule exI [of _ hist], simp)
qed

lemma no_month_loaded:
  "fst (load_data (example_pandas no_month_raw) [''records.csv'']) = no_month_raw"
  by (simp add: load_eval no_month_raw_def csv_name)

text \<open>
  Claim C1 as stated fails on a table without a month column. The file lists identifier
  \<open>A1\<close> for 2022 and then for 2021 and has no \<open>Month\<close> column; neither \<open>load_data\<close> nor
  the search sorts, the history is in file order and the latest record is the 2021 row.
\<close>

theorem search_without_month_column_unsorted:
  "(case search_by_unit_holder_id (example_pandas no_month_raw)
           (fst (load_data (example_pandas no_month_raw) [''records.csv''])) (PyStr ''A1'') of
      Inl e \<Rightarrow> False
    | Inr (latest, hist) \<Rightarrow>
        column_cells ''Year'' hist = [PyInt 2022, PyInt 2021]
        \<and> column_cells ''Year'' latest = [PyInt 2021]
        \<and> \<not> chronological hist)"
  by (simp add: no_month_loaded)
    (simp add: search_by_unit_holder_id_def no_month_raw_def has_column_def Let_def setitem_def
      getitem_mask_def cell_of_def id_text_def strip_A1 sort_chronologically_def iloc_last_def
      column_cells_def chronological_def chrono_key_def)

section \<open>Empty tables\<close>

lemma matching_rows_none:
  "(\<forall>r\<in>set (rows df). strip (py_str L (cell_of r ''Unit Holder ID'')) \<noteq> strip (py_str L q))
     \<Longrightarrow> matching_rows L df q = []"
  by (auto simp: matching_rows_def id_matches_def id_text_def filter_empty_conv)

lemma keys_sortable_no_rows: "rows df = [] \<Longrightarrow> keys_sortable df"
  by (simp add: keys_sortable_def column_sortable_def)

lemma withdrawal_records_no_rows:
  assumes "rows df = []"
  shows "\<exists>out. get_withdrawal_records L today df = Inr out \<and> rows out = []"
proof (cases "has_column df ''Withdrawals''")
  case False
  then show ?thesis by (simp add: get_withdrawal_records_def empty_frame_def)
next
  case True
  let ?w = "let w = getitem_mask (\<lambda>r. ne_zero (cell_of r ''Withdrawals'')) df
            in if has_column df ''birth_date'' then add_age L today w else w"
  have r: "rows ?w = []"
    using assms by (simp add: Let_def rows_getitem_mask rows_add_age)
  then have "keys_sortable ?w" by (rule keys_sortable_no_rows)
  from sort_chronologically_total [OF this] obtain out where
    o: "sort_chronologically ?w = Inr out" and m: "mset (rows out) = mset (rows ?w)" by blast
  from m have "mset (rows out) = {#}" unfolding r by simp
  then have "rows out = []" by simp
  with o show ?thesis by (simp add: get_withdrawal_records_unfold [OF True])
qed

lemma retiree_records_no_rows:
  assumes "rows df = []" and "column_dtype df ''birth_date'' \<noteq> Datetime64"
  shows "\<exists>out. get_retiree_records L today df = Inr out \<and> rows out = []"
proof (cases "has_column df ''birth_date''")
  case False
  then show ?thesis by (simp add: get_retiree_records_def empty_frame_def)
next
  case True
  let ?w = "getitem_mask aged_60 (add_age L today df)"
  have r: "rows ?w = []"
    using assms(1) by (simp add: rows_getitem_mask rows_add_age)
  then have "keys_sortable ?w" by (rule keys_sortable_no_rows)
  from sort_chronologically_total [OF this] obtain out where
    o: "sort_chronologically ?w = Inr out" and m: "mset (rows out) = mset (rows ?w)" by blast
  from m have "mset (rows out) = {#}" unfolding r by simp
  then have "rows out = []" by simp
  with o show ?thesis using assms(2) by (simp add: get_retiree_records_unfold [OF True])
qed

lemma retiree_records_raise:
  assumes "has_column df ''birth_date''" and "rows df = []"
    and "column_dtype df ''birth_date'' = Datetime64"
  shows "get_retiree_records L today df = Inl TypeError"
  using assms by (simp add: get_retiree_records_unfold)

text \<open>
  What holds of the query layer on every table: the search returns two empty frames when
  the identifier column is absent or no row has the identifier (in particular when there
  is no row at all); the withdrawal filter returns the empty frame when its column is
  absent and a frame with no rows when the table has no rows; the retiree filter returns
  the empty frame when the \<open>birth_date\<close> column is absent, and a frame with no rows when
  the table has no rows and its \<open>birth_date\<close> column is not a \<open>datetime64\<close> column.
\<close>

lemma empty_table_results:
  "(\<not> has_column df ''Unit Holder ID''
      \<or> (\<forall>r\<in>set (rows df).
            strip (py_str L (cell_of r ''Unit Holder ID'')) \<noteq> strip (py_str L q))
      \<longrightarrow> search_by_unit_holder_id L df q = Inr (empty_frame, empty_frame))
   \<and> (rows df = [] \<longrightarrow> search_by_unit_holder_id L df q = Inr (empty_frame, empty_frame))
   \<and> (\<not> has_column df ''Withdrawals'' \<longrightarrow> get_withdrawal_records L today df = Inr empty_frame)
   \<and> (rows df = [] \<longrightarrow> (\<exists>out. get_withdrawal_records L today df = Inr out \<and> rows out = []))
   \<and> (\<not> has_column df ''birth_date'' \<longrightarrow> get_retiree_records L today df = Inr empty_frame)
   \<and> (rows df = [] \<and> column_dtype df ''birth_date'' \<noteq> Datetime64 \<longrightarrow>
        (\<exists>out. get_retiree_records L today df = Inr out \<and> rows out = []))"
proof -
  have 1: "\<not> has_column df ''Unit Holder ID''
      \<or> (\<forall>r\<in>set (rows df).
            strip (py_str L (cell_of r ''Unit Holder ID'')) \<noteq> strip (py_str L q))
      \<longrightarrow> search_by_unit_holder_id L df q = Inr (empty_frame, empty_frame)"
    using search_no_column [of df L q] search_no_match [of L df q] matching_rows_none [of df L q]
    by blast
  have 2: "rows df = [] \<longrightarrow> search_by_unit_holder_id L df q = Inr (empty_frame, empty_frame)"
    using 1 by auto
  have 3: "\<not> has_column df ''Withdrawals'' \<longrightarrow> get_withdrawal_records L today df = Inr empty_frame"
    by (simp add: get_withdrawal_records_def)
  have 5: "\<not> has_column df ''birth_date'' \<longrightarrow> get_retiree_records L today df = Inr empty_frame"
    by (simp add: get_retiree_records_def)
  show ?thesis
    using 1 2 3 5 withdrawal_records_no_rows [of df L today] retiree_records_no_rows [of df L today]
    by blast
qed

lemma dated_header_loaded:
  "fst (load_data (example_pandas dated_header_raw) [''records.csv'']) =
     \<lparr>columns = [''Unit Holder ID'', ''Year'', ''Month'', ''Withdrawals'', ''Date_of_Birth'',
                 ''birth_date'', ''Month_original'', ''Month_numeric''],
      dtypes = [''Unit Holder ID'' \<mapsto> Object, ''Year'' \<mapsto> Numeric, ''Month'' \<mapsto> Object,
                ''Withdrawals'' \<mapsto> Numeric, ''Date_of_Birth'' \<mapsto> Datetime64,
                ''birth_date'' \<mapsto> Datetime64, ''Month_original'' \<mapsto> Object,
                ''Month_numeric'' \<mapsto> Numeric],
      rows = []\<rparr>"
  by (simp add: load_eval dated_header_raw_def csv_name list_ex_iff) (rule ext, simp)

text \<open>
  Claim C8 at a file that holds the header line only and has a column of birth dates.
  \<open>load_data\<close> returns a table with no rows whose \<open>birth_date\<close> column is a
  \<open>datetime64\<close> column. On that table the search and the withdrawal filter return empty
  results, and the retiree filter raises \<open>TypeError\<close>: the \<open>Age\<close> column it computes keeps
  the dtype of \<open>birth_date\<close>, and the comparison with 60 is not defined on it.
\<close>

theorem retiree_records_raise_on_loaded_header_only_file:
  "rows (fst (load_data (example_pandas dated_header_raw) [''records.csv''])) = []
   \<and> has_column (fst (load_data (example_pandas dated_header_raw) [''records.csv'']))
         ''birth_date''
   \<and> search_by_unit_holder_id (example_pandas dated_header_raw)
         (fst (load_data (example_pandas dated_header_raw) [''records.csv''])) (PyStr ''A1'')
       = Inr (empty_frame, empty_frame)
   \<and> (\<exists>out. get_withdrawal_records (example_pandas dated_header_raw)
               \<lparr>year = 2024, month = 6, day = 14\<rparr>
               (fst (load_data (example_pandas dated_header_raw) [''records.csv''])) = Inr out
             \<and> rows out = [])
   \<and> get_retiree_records (example_pandas dated_header_raw)
         \<lparr>year = 2024, month = 6, day = 14\<rparr>
         (fst (load_data (example_pandas dated_header_raw) [''records.csv'']))
       = Inl TypeError"
proof -
  let ?L = "example_pandas dated_header_raw"
  let ?t = "\<lparr>year = 2024, month = 6, day = 14\<rparr>"
  let ?df = "fst (load_data ?L [''records.csv''])"
  have r: "rows ?df = []" and c: "has_column ?df ''birth_date''"
    and d: "column_dtype ?df ''birth_date'' = Datetime64"
    by (simp_all add: dated_header_loaded has_column_def column_dtype_def)
  have s: "search_by_unit_holder_id ?L ?df (PyStr ''A1'') = Inr (empty_frame, empty_frame)"
    by (rule search_no_match) (simp add: matching_rows_def r)
  from s r c withdrawal_records_no_rows [OF r, of ?L ?t] retiree_records_raise [OF c r d, of ?L ?t]
  show ?thesis by simp
qed

section \<open>Ages\<close>

lemma calculate_age_Timestamp:
  "calculate_age L today (Timestamp d) =
     PyInt (year today - year d
            - (if month today < month d \<or> (month today = month d \<and> day today < day d)
               then 1 else 0))"
  by (auto simp: calculate_age_def age_on_def)

lemma calculate_age_parsed:
  "to_datetime L s = Parsed d \<Longrightarrow>
   calculate_age L today (PyStr s) =
     PyInt (year today - year d
            - (if month today < month d \<or> (month today = month d \<and> day today < day d)
               then 1 else 0))"
  by (auto simp: calculate_age_def age_on_def)

lemma calculate_age_raises:
  "to_datetime L s = Raises \<Longrightarrow> calculate_age L today (PyStr s) = PyStr ''N/A''"
  by (simp add: calculate_age_def)

lemma calculate_age_number:
  "calculate_age L today (PyInt n) = PyStr ''N/A''"
  "calculate_age L today (PyFloat x) = PyStr ''N/A''"
  by (simp_all add: calculate_age_def)

lemma calculate_age_boundary:
  "calculate_age L \<lparr>year = 2024, month = 6, day = 14\<rparr>
     (Timestamp \<lparr>year = 2000, month = 6, day = 15\<rparr>) = PyInt 23"
  "calculate_age L \<lparr>year = 2024, month = 6, day = 15\<rparr>
     (Timestamp \<lparr>year = 2000, month = 6, day = 15\<rparr>) = PyInt 24"
  by (simp_all add: calculate_age_Timestamp)

lemma calculate_age_parsed_nat:
  "to_datetime L s = ParsedNaT \<Longrightarrow> calculate_age L today (PyStr s) = NaN"
  by (simp add: calculate_age_def)

text \<open>
  Claim C2 at the text \<open>NaT\<close>: \<open>pd.to_datetime\<close> reads it as the missing timestamp, and
  the age computed from it is \<open>nan\<close>, not the string \<open>N/A\<close>.
\<close>

theorem calculate_age_nat_text:
  "calculate_age (example_pandas empty_frame) \<lparr>year = 2024, month = 6, day = 14\<rparr>
     (PyStr ''NaT'') = NaN"
  by (simp add: calculate_age_def example_pandas_def)

section \<open>Chronological order\<close>

text \<open>
  What chronological order says of two rows, the first standing before the second:
  their years ascend and a missing year comes after every year; in the same year their
  month ranks ascend and a missing month rank comes after every month rank.
\<close>

lemma chronological_pair:
  assumes "chronological df" and "i < j" and "j < length (rows df)"
  shows "chrono_key (rows df ! i) \<le> chrono_key (rows df ! j)"
proof -
  have "map chrono_key (rows df) ! i \<le> map chrono_key (rows df) ! j"
    using assms by (intro sorted_nth_mono) (simp_all add: chronological_def)
  then show ?thesis using assms by simp
qed

lemma key_of_number: "num_of c = Some a \<Longrightarrow> key_of c = (0, a, (0, 0, 0), [])"
  by (cases c) auto

lemma key_of_isna: "isna c \<Longrightarrow> key_of c = (2, 0, (0, 0, 0), [])"
  by (cases c) auto

lemma key_of_present: "\<not> isna c \<Longrightarrow> fst (key_of c) < 2"
  by (cases c) auto

lemma chrono_key_years_ascend:
  assumes "chrono_key r \<le> chrono_key r'"
    and "num_of (cell_of r ''Year'') = Some a" and "num_of (cell_of r' ''Year'') = Some b"
  shows "a \<le> b"
  using assms(1)
  by (auto simp: chrono_key_def key_of_number [OF assms(2)] key_of_number [OF assms(3)])

lemma chrono_key_missing_year_last:
  assumes "chrono_key r \<le> chrono_key r'" and "isna (cell_of r ''Year'')"
  shows "isna (cell_of r' ''Year'')"
proof (rule ccontr)
  assume "\<not> isna (cell_of r' ''Year'')"
  then have "fst (key_of (cell_of r' ''Year'')) < 2" by (rule key_of_present)
  then show False
    using assms(1)
    by (cases "key_of (cell_of r' ''Year'')")
      (auto simp: chrono_key_def key_of_isna [OF assms(2)])
qed

lemma chrono_key_months_ascend:
  assumes "chrono_key r \<le> chrono_key r'"
    and "num_of (cell_of r ''Year'') = Some a" and "num_of (cell_of r' ''Year'') = Some a"
    and "num_of (cell_of r ''Month_numeric'') = Some m"
    and "num_of (cell_of r' ''Month_numeric'') = Some m'"
  shows "m \<le> m'"
  using assms(1)
  by (auto simp: chrono_key_def key_of_number [OF assms(2)] key_of_number [OF assms(3)]
      key_of_number [OF assms(4)] key_of_number [OF assms(5)])

lemma chrono_key_missing_month_last_in_year:
  assumes "chrono_key r \<le> chrono_key r'"
    and "num_of (cell_of r ''Year'') = Some a" and "num_of (cell_of r' ''Year'') = Some a"
    and "isna (cell_of r ''Month_numeric'')"
  shows "isna (cell_of r' ''Month_numeric'')"
proof (rule ccontr)
  assume "\<not> isna (cell_of r' ''Month_numeric'')"
  then have "fst (key_of (cell_of r' ''Month_numeric'')) < 2" by (rule key_of_present)
  then show False
    using assms(1)
    by (cases "key_of (cell_of r' ''Month_numeric'')")
      (auto simp: chrono_key_def key_of_number [OF assms(2)] key_of_number [OF assms(3)]
        key_of_isna [OF assms(4)])
qed

lemma sort_chronologically_ok:
  assumes "has_column f ''Year'' \<and> has_column f ''Month_numeric'' \<Longrightarrow> keys_sortable f"
  shows "\<exists>out. sort_chronologically f = Inr out \<and> columns out = columns f
           \<and> mset (rows out) = mset (rows f)
           \<and> (has_column f ''Year'' \<and> has_column f ''Month_numeric'' \<longrightarrow>
                 chronological out \<and> rows out = sort_key chrono_key (rows f))"
proof (cases "has_column f ''Year'' \<and> has_column f ''Month_numeric''")
  case True
  then show ?thesis using assms sort_chronologically_total by blast
next
  case False
  then show ?thesis by (auto simp: sort_chronologically_def)
qed

lemma getitem_mask_frame:
  "\<lparr>columns = columns f, dtypes = dtypes f, rows = filter p (rows f)\<rparr> = getitem_mask p f"
  by (simp add: getitem_mask_def)

lemma retiree_records_result:
  assumes "has_column df ''birth_date''"
    and "\<not> (rows df = [] \<and> column_dtype df ''birth_date'' = Datetime64)"
    and "has_column df ''Year'' \<and> has_column df ''Month_numeric'' \<Longrightarrow> keys_sortable df"
  shows "\<exists>out. get_retiree_records L today df = Inr out
           \<and> mset (rows out) = mset (filter aged_60 (rows (add_age L today df)))
           \<and> (has_column df ''Year'' \<and> has_column df ''Month_numeric'' \<longrightarrow>
                 chronological out
                 \<and> rows out = sort_key chrono_key (filter aged_60 (rows (add_age L today df))))"
proof -
  let ?f = "getitem_mask aged_60 (add_age L today df)"
  have "has_column ?f ''Year'' \<and> has_column ?f ''Month_numeric'' \<Longrightarrow> keys_sortable ?f"
    using assms(3)
    by (simp add: has_column_getitem_mask has_column_add_age keys_sortable_getitem_mask
        keys_sortable_add_age)
  from sort_chronologically_ok [OF this] assms(2)
  show ?thesis
    by (auto simp: get_retiree_records_unfold [OF assms(1)]
        has_column_getitem_mask has_column_add_age rows_getitem_mask)
qed

lemma rows_with_age:
  "rows (let w = getitem_mask (\<lambda>r. ne_zero (cell_of r ''Withdrawals'')) df
         in if has_column df ''birth_date'' then add_age L today w else w)
   = map (with_age L today df) (filter (\<lambda>r. ne_zero (cell_of r ''Withdrawals'')) (rows df))"
  by (simp add: Let_def rows_add_age rows_getitem_mask with_age_def [abs_def]
      computed_ages_def withdrawal_ages_def)

lemma withdrawal_records_result:
  assumes "has_column df ''Withdrawals''"
    and "has_column df ''Year'' \<and> has_column df ''Month_numeric'' \<Longrightarrow> keys_sortable df"
  shows "\<exists>out. get_withdrawal_records L today df = Inr out
           \<and> mset (rows out) =
               mset (map (with_age L today df)
                      (filter (\<lambda>r. ne_zero (cell_of r ''Withdrawals'')) (rows df)))
           \<and> (has_column df ''Year'' \<and> has_column df ''Month_numeric'' \<longrightarrow>
                 chronological out
                 \<and> rows out =
                     sort_key chrono_key
                       (map (with_age L today df)
                          (filter (\<lambda>r. ne_zero (cell_of r ''Withdrawals'')) (rows df))))"
proof -
  let ?f = "let w = getitem_mask (\<lambda>r. ne_zero (cell_of r ''Withdrawals'')) df
            in if has_column df ''birth_date'' then add_age L today w else w"
  have h: "has_column ?f ''Year'' = has_column df ''Year''"
    "has_column ?f ''Month_numeric'' = has_column df ''Month_numeric''"
    by (simp_all add: Let_def has_column_getitem_mask has_column_add_age)
  have "has_column ?f ''Year'' \<and> has_column ?f ''Month_numeric'' \<Longrightarrow> keys_sortable ?f"
    using assms(2) unfolding h
    by (simp add: Let_def keys_sortable_getitem_mask keys_sortable_add_age)
  from sort_chronologically_ok [OF this]
  show ?thesis
    unfolding h rows_with_age by (auto simp: get_withdrawal_records_unfold [OF assms(1)])
qed

lemma search_chronological:
  assumes "has_column df ''Year''" and "has_column df ''Month_numeric''" and "keys_sortable df"
  shows "\<exists>latest hist. search_by_unit_holder_id L df q = Inr (latest, hist) \<and> chronological hist
           \<and> (has_column df ''Unit Holder ID'' \<longrightarrow>
                 rows hist = sort_key chrono_key (matching_rows L df q))"
proof (cases "has_column df ''Unit Holder ID'' \<and> matching_rows L df q \<noteq> []")
  case True
  then have c: "has_column df ''Unit Holder ID''" and ne: "matching_rows L df q \<noteq> []"
    by auto
  show ?thesis
    using assms by (simp add: search_result [OF c ne] Let_def chronological_sort)
next
  case False
  then have "search_by_unit_holder_id L df q = Inr (empty_frame, empty_frame)"
    using search_no_column search_no_match by blast
  then show ?thesis using False by (auto simp: chronological_def empty_frame_def)
qed

lemma load_data_pair: "load_data L listing = (fst (load_data L listing), snd (load_data L listing))"
  by simp

text \<open>
  Claim C7, as amended. When the table that \<open>load_data\<close> returns has the \<open>Year\<close> and
  \<open>Month_numeric\<close> columns, it is in chronological order. Each query function sorts its
  own result again: on every table that has the two columns, whatever the order of its
  rows, the history of the search is the matching rows sorted by (year, month rank), the
  result of the withdrawal filter is the selected rows sorted, and the result of the
  retiree filter, which returns unless the table has no rows and a \<open>datetime64\<close>
  \<open>birth_date\<close>, is the rows of age 60 or more sorted. Chronological order is ascending
  by year and then by month rank, the missing values of each key last within that key: a
  row with no year stands after every row with a year, and a row with a year and no
  month rank stands after the rows of that year that have one, before the rows of later
  years.
\<close>

theorem load_and_queries_chronological:
  "(load_data L listing = (loaded, name)
      \<and> has_column loaded ''Year'' \<and> has_column loaded ''Month_numeric''
      \<longrightarrow> chronological loaded \<and> keys_sortable loaded)
   \<and> (has_column df ''Year'' \<and> has_column df ''Month_numeric'' \<and> keys_sortable df \<longrightarrow>
        (\<exists>latest hist. search_by_unit_holder_id L df q = Inr (latest, hist)
            \<and> chronological hist
            \<and> (has_column df ''Unit Holder ID'' \<longrightarrow>
                  rows hist = sort_key chrono_key (matching_rows L df q)))
        \<and> (\<exists>out. get_withdrawal_records L today df = Inr out
               \<and> chronological out
               \<and> (has_column df ''Withdrawals'' \<longrightarrow>
                     rows out =
                       sort_key chrono_key
                         (map (with_age L today df)
                            (filter (\<lambda>r. ne_zero (cell_of r ''Withdrawals'')) (rows df)))))
        \<and> (\<not> (has_column df ''birth_date'' \<and> rows df = []
                 \<and> column_dtype df ''birth_date'' = Datetime64) \<longrightarrow>
             (\<exists>out. get_retiree_records L today df = Inr out
                \<and> chronological out
                \<and> (has_column df ''birth_date'' \<longrightarrow>
                      rows out =
                        sort_key chrono_key (filter aged_60 (rows (add_age L today df)))))))"
proof -
  have l: "load_data L listing = (loaded, name)
      \<and> has_column loaded ''Year'' \<and> has_column loaded ''Month_numeric''
      \<longrightarrow> chronological loaded \<and> keys_sortable loaded"
    using load_data_ordered by blast
  have q: "(\<exists>latest hist. search_by_unit_holder_id L df q = Inr (latest, hist)
            \<and> chronological hist
            \<and> (has_column df ''Unit Holder ID'' \<longrightarrow>
                  rows hist = sort_key chrono_key (matching_rows L df q)))
        \<and> (\<exists>out. get_withdrawal_records L today df = Inr out
               \<and> chronological out
               \<and> (has_column df ''Withdrawals'' \<longrightarrow>
                     rows out =
                       sort_key chrono_key
                         (map (with_age L today df)
                            (filter (\<lambda>r. ne_zero (cell_of r ''Withdrawals'')) (rows df)))))
        \<and> (\<not> (has_column df ''birth_date'' \<and> rows df = []
                 \<and> column_dtype df ''birth_date'' = Datetime64) \<longrightarrow>
             (\<exists>out. get_retiree_records L today df = Inr out
                \<and> chronological out
                \<and> (has_column df ''birth_date'' \<longrightarrow>
                      rows out =
                        sort_key chrono_key (filter aged_60 (rows (add_age L today df))))))"
    if y: "has_column df ''Year''" and m: "has_column df ''Month_numeric''"
      and k: "keys_sortable df"
  proof (intro conjI impI)
    show "\<exists>latest hist. search_by_unit_holder_id L df q = Inr (latest, hist)
            \<and> chronological hist
            \<and> (has_column df ''Unit Holder ID'' \<longrightarrow>
                  rows hist = sort_key chrono_key (matching_rows L df q))"
      using y m k by (rule search_chronological)
    show "\<exists>out. get_withdrawal_records L today df = Inr out
               \<and> chronological out
               \<and> (has_column df ''Withdrawals'' \<longrightarrow>
                     rows out =
                       sort_key chrono_key
                         (map (with_age L today df)
                            (filter (\<lambda>r. ne_zero (cell_of r ''Withdrawals'')) (rows df))))"
    proof (cases "has_column df ''Withdrawals''")
      case True
      from withdrawal_records_result [OF True k] y m show ?thesis by blast
    next
      case False
      then show ?thesis by (simp add: get_withdrawal_records_def chronological_empty_frame)
    qed
    assume n: "\<not> (has_column df ''birth_date'' \<and> rows df = []
                 \<and> column_dtype df ''birth_date'' = Datetime64)"
    show "\<exists>out. get_retiree_records L today df = Inr out
                \<and> chronological out
                \<and> (has_column df ''birth_date'' \<longrightarrow>
                      rows out =
                        sort_key chrono_key (filter aged_60 (rows (add_age L today df))))"
    proof (cases "has_column df ''birth_date''")
      case True
      with n have "\<not> (rows df = [] \<and> column_dtype df ''birth_date'' = Datetime64)" by simp
      from retiree_records_result [OF True this k] y m show ?thesis by blast
    next
      case False
      then show ?thesis by (simp add: get_retiree_records_def chronological_empty_frame)
    qed
  qed
  from l q show ?thesis by blast
qed

lemma month_smarch: "map_of month_map (strip (lower ''Smarch'')) = None"
  by code_simp

lemma unknown_month_loaded:
  "map (\<lambda>r. (cell_of r ''Year'', cell_of r ''Month_numeric''))
     (rows (fst (load_data (example_pandas unknown_month_raw) [''records.csv''])))
   = [(PyInt 2021, NaN), (PyInt 2022, PyInt 1)]"
  by (simp add: load_eval unknown_month_raw_def csv_name month_jan month_smarch)



theorem load_and_queries_chronological_witness:
  "chronological (fst (load_data (example_pandas unknown_month_raw) [''records.csv'']))
   \<and> column_cells ''Year'' unordered_table = [PyInt 2022, PyInt 2021]
   \<and> (\<exists>latest hist.
         search_by_unit_holder_id (example_pandas unknown_month_raw) unordered_table (PyStr ''A1'')
           = Inr (latest, hist)
         \<and> column_cells ''Year'' hist = [PyInt 2021, PyInt 2022])
   \<and> (\<exists>out. get_withdrawal_records (example_pandas unknown_month_raw)
               \<lparr>year = 2024, month = 6, day = 14\<rparr> unordered_table = Inr out
             \<and> column_cells ''Year'' out = [PyInt 2021, PyInt 2022])
   \<and> (\<exists>out. get_retiree_records (example_pandas unknown_month_raw)
               \<lparr>year = 2024, month = 6, day = 14\<rparr> unordered_table = Inr out
             \<and> column_cells ''Year'' out = [PyInt 2021, PyInt 2022])"
proof -
  let ?L = "example_pandas unknown_month_raw"
  let ?t = "\<lparr>year = 2024, month = 6, day = 14\<rparr>"
  let ?loaded = "fst (load_data ?L [''records.csv''])"
  let ?u = unordered_table
  have c: "has_column ?loaded ''Year''" "has_column ?loaded ''Month_numeric''"
    by (simp_all add: load_eval unknown_month_raw_def csv_name month_jan month_smarch)
  have h: "has_column ?u ''Year''" "has_column ?u ''Month_numeric''"
    "has_column ?u ''Unit Holder ID''" "has_column ?u ''Withdrawals''"
    "has_column ?u ''birth_date''" "rows ?u \<noteq> []"
    by (simp_all add: unordered_table_def has_column_def)
  have k: "keys_sortable ?u"
    by (simp add: unordered_table_def keys_sortable_def column_sortable_def cell_of_def)
  have y: "map (\<lambda>r. cell_of r ''Year'') (rows ?u) = [PyInt 2022, PyInt 2021]"
    by (simp add: unordered_table_def cell_of_def)
  have s: "map (\<lambda>r. cell_of r ''Year'')
             (sort_key chrono_key (matching_rows ?L ?u (PyStr ''A1''))) = [PyInt 2021, PyInt 2022]"
    by (simp add: unordered_table_def matching_rows_def id_matches_def id_cleaned_def
        id_text_def strip_A1 cell_of_def chrono_key_def)
  have w: "map (\<lambda>r. cell_of r ''Year'')
             (sort_key chrono_key
                (map (with_age ?L ?t ?u)
                   (filter (\<lambda>r. ne_zero (cell_of r ''Withdrawals'')) (rows ?u))))
           = [PyInt 2021, PyInt 2022]"
    by (simp add: unordered_table_def with_age_def has_column_def cell_of_def chrono_key_def)
  have r: "map (\<lambda>r. cell_of r ''Year'')
             (sort_key chrono_key (filter aged_60 (rows (add_age ?L ?t ?u))))
           = [PyInt 2021, PyInt 2022]"
    by (simp add: unordered_table_def add_age_def Let_def setitem_def aged_60_def cell_of_def
        chrono_key_def calculate_age_def age_on_def apply_value_def numeric_values_def)
  from load_and_queries_chronological
         [of ?L "[''records.csv'']" ?loaded "snd (load_data ?L [''records.csv''])" ?u
             "PyStr ''A1''" ?t]
       c h k
  show ?thesis
    by (auto simp: column_cells_def s w r y)
qed

text \<open>
  Claim C7 as stated fails twice. A row whose month is not recognised is placed after
  the rows of its own year only: here the 2021 row with no month rank stands before the
  complete row of January 2022. And a file with no \<open>Month\<close> column is not sorted at all.
\<close>

theorem load_puts_missing_month_within_its_year:
  "map (\<lambda>r. (cell_of r ''Year'', cell_of r ''Month_numeric''))
     (rows (fst (load_data (example_pandas unknown_month_raw) [''records.csv''])))
   = [(PyInt 2021, NaN), (PyInt 2022, PyInt 1)]
   \<and> \<not> chronological (fst (load_data (example_pandas no_month_raw) [''records.csv'']))"
  by (simp add: unknown_month_loaded no_month_loaded)
    (simp add: chronological_def no_month_raw_def chrono_key_def cell_of_def)

section \<open>The withdrawal filter\<close>

lemma coerced_is_number:
  "\<exists>q. num_of (fillna_zero (to_numeric_coerce L c)) = Some q"
  by (auto simp: fillna_zero_def to_numeric_coerce_def split: cell.splits option.splits)

lemma coerced_missing:
  "isna c \<Longrightarrow> fillna_zero (to_numeric_coerce L c) = PyFloat 0"
  by (cases c) (auto simp: fillna_zero_def to_numeric_coerce_def)

lemma coerced_not_numeric:
  "to_numeric L (PyStr s) = None \<Longrightarrow> fillna_zero (to_numeric_coerce L (PyStr s)) = PyFloat 0"
  by (auto simp: fillna_zero_def to_numeric_coerce_def)

lemma ne_zero_number:
  "num_of c = Some q \<Longrightarrow> ne_zero c = (q \<noteq> 0)"
  by (cases c) auto

lemma clean_withdrawals_cells:
  assumes "has_column df ''Withdrawals''" and "r \<in> set (rows (clean_withdrawals L df))"
  shows "\<exists>q. num_of (cell_of r ''Withdrawals'') = Some q"
  using assms coerced_is_number
  by (auto simp: clean_withdrawals_def setitem_def cell_of_upd)

lemma column_cells_clean_withdrawals:
  "has_column df ''Withdrawals'' \<Longrightarrow>
   column_cells ''Withdrawals'' (clean_withdrawals L df) =
     map (\<lambda>c. fillna_zero (to_numeric_coerce L c)) (column_cells ''Withdrawals'' df)"
  by (simp add: clean_withdrawals_def column_cells_setitem) (simp add: column_cells_def)

lemma before_sort_withdrawals:
  "column_cells ''Withdrawals'' (before_sort L raw) = column_cells ''Withdrawals'' raw"
proof -
  have "''Withdrawals'' \<notin> set date_columns" by (simp add: date_columns_def)
  then show ?thesis
    by (simp add: before_sort_def handle_month_other convert_year_other
        standardize_birth_date_other clean_social_security_other)
qed

lemma has_column_before_sort_withdrawals:
  "has_column (before_sort L raw) ''Withdrawals'' = has_column raw ''Withdrawals''"
  by (simp add: before_sort_def has_column_handle_month has_column_convert_year
      has_column_standardize_birth_date has_column_clean_social_security)

lemma mset_column_cells:
  "mset (rows f) = mset (rows g) \<Longrightarrow> mset (column_cells c f) = mset (column_cells c g)"
  by (metis column_cells_def mset_map)

lemma normalize_withdrawals:
  assumes "normalize L raw = Inr df" and "has_column raw ''Withdrawals''"
  shows "has_column df ''Withdrawals''"
    and "mset (column_cells ''Withdrawals'' df) =
          image_mset (\<lambda>c. fillna_zero (to_numeric_coerce L c))
            (mset (column_cells ''Withdrawals'' raw))"
    and "\<forall>r\<in>set (rows df). \<exists>q. num_of (cell_of r ''Withdrawals'') = Some q"
proof -
  from assms(1) obtain ordered where
    s: "sort_chronologically (before_sort L raw) = Inr ordered"
    and d: "df = clean_withdrawals L ordered"
    by (auto simp: normalize_Inr)
  have "has_column (before_sort L raw) ''Withdrawals''"
    using assms(2) by (simp add: has_column_before_sort_withdrawals)
  then have c: "has_column ordered ''Withdrawals''"
    using sort_chronologically_Inr(1) [OF s] by (simp add: has_column_def)
  show "has_column df ''Withdrawals''"
    using c by (simp add: d has_column_clean_withdrawals)
  have "mset (column_cells ''Withdrawals'' ordered) = mset (column_cells ''Withdrawals'' raw)"
    using mset_column_cells [OF sort_chronologically_Inr(2) [OF s]]
    by (simp add: before_sort_withdrawals)
  then show "mset (column_cells ''Withdrawals'' df) =
          image_mset (\<lambda>c. fillna_zero (to_numeric_coerce L c))
            (mset (column_cells ''Withdrawals'' raw))"
    by (simp add: d column_cells_clean_withdrawals [OF c])
  show "\<forall>r\<in>set (rows df). \<exists>q. num_of (cell_of r ''Withdrawals'') = Some q"
    using clean_withdrawals_cells [OF c] by (simp add: d)
qed

lemma normalize_withdrawals_absent:
  assumes "normalize L raw = Inr df" and "\<not> has_column raw ''Withdrawals''"
  shows "\<not> has_column df ''Withdrawals''"
proof -
  from assms(1) obtain ordered where
    s: "sort_chronologically (before_sort L raw) = Inr ordered"
    and d: "df = clean_withdrawals L ordered"
    by (auto simp: normalize_Inr)
  have "\<not> has_column (before_sort L raw) ''Withdrawals''"
    using assms(2) by (simp add: has_column_before_sort_withdrawals)
  then have "\<not> has_column ordered ''Withdrawals''"
    using sort_chronologically_Inr(1) [OF s] by (simp add: has_column_def)
  then show ?thesis
    by (simp add: d has_column_clean_withdrawals)
qed

lemma loaded_withdrawals_numbers:
  assumes "load_data L listing = (df, name)" and "has_column df ''Withdrawals''"
    and "r \<in> set (rows df)"
  shows "\<exists>q. num_of (cell_of r ''Withdrawals'') = Some q"
proof -
  from load_data_cases [OF assms(1)] assms(2) obtain raw where
    n: "normalize L raw = Inr df"
    by (auto simp: has_column_empty_frame)
  have "has_column raw ''Withdrawals''"
    using normalize_withdrawals_absent [OF n] assms(2) by blast
  from normalize_withdrawals(3) [OF n this] assms(3) show ?thesis by blast
qed

lemma with_age_withdrawals:
  "cell_of (with_age L today df r) ''Withdrawals'' = cell_of r ''Withdrawals''"
  by (simp add: with_age_def cell_of_upd)

lemma withdrawals_amount_with_age:
  "withdrawals_amount (with_age L today df r) = withdrawals_amount r"
  by (simp add: withdrawals_amount_def with_age_withdrawals)

text \<open>
  Claim C3. On a table returned by \<open>load_data\<close>: without a \<open>Withdrawals\<close> column the
  filter returns the empty frame; with it, the filter succeeds and returns exactly the
  rows whose withdrawals value differs from 0 (each with the computed \<open>Age\<close> added when
  there is a \<open>birth_date\<close> column), so every returned row has a non-zero value. The
  value of a returned row is the cell of the table, unchanged, whatever its sign. The
  cells of the loaded column are those of the file after \<open>to_numeric\<close> and \<open>fillna(0)\<close>,
  which turn a missing cell and a text that is no number into 0.
\<close>

theorem withdrawal_records_nonzero:
  assumes "load_data L listing = (df, name)"
  shows "(\<not> has_column df ''Withdrawals'' \<longrightarrow>
            get_withdrawal_records L today df = Inr empty_frame)
         \<and> (has_column df ''Withdrawals'' \<longrightarrow>
              (\<exists>out. get_withdrawal_records L today df = Inr out
                 \<and> mset (rows out) =
                     mset (map (with_age L today df)
                            (filter (\<lambda>r. withdrawals_amount r \<noteq> 0) (rows df)))
                 \<and> (\<forall>r\<in>set (rows out). withdrawals_amount r \<noteq> 0)))
         \<and> (\<forall>r\<in>set (rows df).
               cell_of (with_age L today df r) ''Withdrawals'' = cell_of r ''Withdrawals'')
         \<and> (\<forall>raw. normalize L raw = Inr df \<and> has_column raw ''Withdrawals'' \<longrightarrow>
               mset (column_cells ''Withdrawals'' df) =
                 image_mset (\<lambda>c. fillna_zero (to_numeric_coerce L c))
                   (mset (column_cells ''Withdrawals'' raw)))
         \<and> (\<forall>c. isna c \<or> (\<exists>s. c = PyStr s \<and> to_numeric L c = None) \<longrightarrow>
               fillna_zero (to_numeric_coerce L c) = PyFloat 0)"
proof -
  let ?nz = "\<lambda>r. withdrawals_amount r \<noteq> 0"
  have coerce: "\<forall>c. isna c \<or> (\<exists>s. c = PyStr s \<and> to_numeric L c = None) \<longrightarrow>
                 fillna_zero (to_numeric_coerce L c) = PyFloat 0"
    using coerced_missing coerced_not_numeric by blast
  have raw: "\<forall>raw. normalize L raw = Inr df \<and> has_column raw ''Withdrawals'' \<longrightarrow>
                 mset (column_cells ''Withdrawals'' df) =
                   image_mset (\<lambda>c. fillna_zero (to_numeric_coerce L c))
                     (mset (column_cells ''Withdrawals'' raw))"
    using normalize_withdrawals(2) by blast
  have sign: "\<forall>r\<in>set (rows df).
                 cell_of (with_age L today df r) ''Withdrawals'' = cell_of r ''Withdrawals''"
    by (simp add: with_age_withdrawals)
  have absent: "\<not> has_column df ''Withdrawals'' \<longrightarrow>
            get_withdrawal_records L today df = Inr empty_frame"
    by (simp add: get_withdrawal_records_def)
  have present: "has_column df ''Withdrawals'' \<longrightarrow>
              (\<exists>out. get_withdrawal_records L today df = Inr out
                 \<and> mset (rows out) = mset (map (with_age L today df) (filter ?nz (rows df)))
                 \<and> (\<forall>r\<in>set (rows out). withdrawals_amount r \<noteq> 0))"
  proof
    assume c: "has_column df ''Withdrawals''"
    have k: "has_column df ''Year'' \<and> has_column df ''Month_numeric'' \<Longrightarrow> keys_sortable df"
      using load_data_ordered [OF assms] by blast
    have f: "filter (\<lambda>r. ne_zero (cell_of r ''Withdrawals'')) (rows df) = filter ?nz (rows df)"
    proof (rule filter_cong [OF refl])
      fix r assume "r \<in> set (rows df)"
      from loaded_withdrawals_numbers [OF assms c this]
      show "ne_zero (cell_of r ''Withdrawals'') = (withdrawals_amount r \<noteq> 0)"
        by (auto simp: withdrawals_amount_def ne_zero_number)
    qed
    from withdrawal_records_result [OF c k, of L today]
    obtain out where
      o: "get_withdrawal_records L today df = Inr out"
      and m: "mset (rows out) = mset (map (with_age L today df) (filter ?nz (rows df)))"
      by (auto simp: f)
    have "set (rows out) = set (map (with_age L today df) (filter ?nz (rows df)))"
      using m by (rule mset_eq_setD)
    then have nz: "\<forall>r\<in>set (rows out). withdrawals_amount r \<noteq> 0"
      by (auto simp: withdrawals_amount_with_age)
    from o m nz
    show "\<exists>out. get_withdrawal_records L today df = Inr out
                 \<and> mset (rows out) = mset (map (with_age L today df) (filter ?nz (rows df)))
                 \<and> (\<forall>r\<in>set (rows out). withdrawals_amount r \<noteq> 0)"
      by blast
  qed
  from absent present sign raw coerce show ?thesis by blast
qed


theorem withdrawal_records_nonzero_witness:
  "has_column (fst (load_data (example_pandas withdrawals_raw) [''records.csv''])) ''Withdrawals''
   \<and> column_cells ''Withdrawals'' (fst (load_data (example_pandas withdrawals_raw) [''records.csv'']))
       = [PyFloat 0, PyFloat 0, PyFloat (- 50), PyFloat (201 / 2)]
   \<and> (\<exists>out. get_withdrawal_records (example_pandas withdrawals_raw)
               \<lparr>year = 2024, month = 6, day = 14\<rparr>
               (fst (load_data (example_pandas withdrawals_raw) [''records.csv''])) = Inr out
             \<and> mset (map (\<lambda>r. (cell_of r ''Unit Holder ID'', cell_of r ''Withdrawals'')) (rows out))
                 = {#(PyStr ''A3'', PyFloat (- 50)), (PyStr ''A4'', PyFloat (201 / 2))#})"
proof -
  let ?L = "example_pandas withdrawals_raw"
  let ?t = "\<lparr>year = 2024, month = 6, day = 14\<rparr>"
  let ?df = "fst (load_data ?L [''records.csv''])"
  let ?p = "\<lambda>r. (cell_of r ''Unit Holder ID'', cell_of r ''Withdrawals'')"
  have c: "has_column ?df ''Withdrawals''"
    and v: "column_cells ''Withdrawals'' ?df
              = [PyFloat 0, PyFloat 0, PyFloat (- 50), PyFloat (201 / 2)]"
    and e: "map ?p (map (with_age ?L ?t ?df)
                      (filter (\<lambda>r. withdrawals_amount r \<noteq> 0) (rows ?df)))
              = [(PyStr ''A3'', PyFloat (- 50)), (PyStr ''A4'', PyFloat (201 / 2))]"
    by (simp_all add: load_eval withdrawals_raw_def csv_name column_cells_def fillna_zero_def
        withdrawals_amount_def with_age_def)
  from withdrawal_records_nonzero [OF load_data_pair, of ?L "[''records.csv'']" ?t] c
  obtain out where
    o: "get_withdrawal_records ?L ?t ?df = Inr out"
    and m: "mset (rows out) =
              mset (map (with_age ?L ?t ?df) (filter (\<lambda>r. withdrawals_amount r \<noteq> 0) (rows ?df)))"
    by blast
  have "mset (map ?p (rows out)) =
          mset (map ?p (map (with_age ?L ?t ?df)
                          (filter (\<lambda>r. withdrawals_amount r \<noteq> 0) (rows ?df))))"
    by (simp only: mset_map m)
  also have "\<dots> = mset [(PyStr ''A3'', PyFloat (- 50)), (PyStr ''A4'', PyFloat (201 / 2))]"
    by (simp only: e)
  finally have "mset (map ?p (rows out))
      = {#(PyStr ''A3'', PyFloat (- 50)), (PyStr ''A4'', PyFloat (201 / 2))#}"
    by simp
  with o c v show ?thesis by blast
qed

section \<open>The retiree filter\<close>

lemma retiree_rows_sound:
  assumes "get_retiree_records L today df = Inr out" and "r \<in> set (rows out)"
  shows "\<exists>n. num_of (cell_of r ''Age'') = Some (of_int n) \<and> 60 \<le> n
             \<and> cell_of r ''Age'' \<noteq> PyStr ''N/A''
             \<and> calculate_age L today (cell_of r ''birth_date'') = PyInt n
             \<and> \<not> isna (cell_of r ''birth_date'')"
proof (cases "has_column df ''birth_date''")
  case False
  then show ?thesis using assms by (auto simp: get_retiree_records_def empty_frame_def)
next
  case True
  let ?f = "getitem_mask aged_60 (add_age L today df)"
  let ?v = "calculate_age L today (cell_of r ''birth_date'')"
  have "sort_chronologically ?f = Inr out"
    using assms(1) by (simp add: get_retiree_records_unfold [OF True] split: if_splits)
  from sort_chronologically_Inr(2) [OF this] have "set (rows out) = set (rows ?f)"
    by (rule mset_eq_setD)
  with assms(2) have a: "r \<in> set (rows (add_age L today df))" and b: "aged_60 r"
    by (auto simp: rows_getitem_mask)
  have e: "cell_of r ''Age'' = apply_value (computed_ages L today df) ?v"
    using age_of_added [OF a] .
  from b obtain x where x: "num_of ?v = Some x" "60 \<le> x"
    by (auto simp: aged_60_def e num_of_apply_value split: option.splits)
  with calculate_age_values [of L today "cell_of r ''birth_date''"]
  obtain n where n: "?v = PyInt n" by auto
  with x have "60 \<le> n" by simp
  moreover have "num_of (cell_of r ''Age'') = Some (of_int n)"
    by (simp add: e num_of_apply_value n)
  moreover have "cell_of r ''Age'' \<noteq> PyStr ''N/A''"
    by (simp add: e apply_value_text n)
  ultimately show ?thesis using calculate_age_PyInt [OF n] n by auto
qed

text \<open>
  Claim C4. Every row returned by the retiree filter carries a numeric \<open>Age\<close> of at least
  60, whose value is the age computed from its birth date and which is not the \<open>N/A\<close>
  marker, and its birth date is not missing. The rows whose age is \<open>N/A\<close> are dropped
  before the comparison with 60, so the comparison never meets a string: on a table with
  a \<open>birth_date\<close> column the function is the chronological sort of the rows of age 60 or
  more, except on the table without rows whose \<open>birth_date\<close> is a \<open>datetime64\<close> column,
  where the comparison raises \<open>TypeError\<close>; apart from that table it returns all the rows
  of age 60 or more whenever the sort is defined.
\<close>

theorem retiree_records_aged_60:
  "(\<not> has_column df ''birth_date'' \<longrightarrow> get_retiree_records L today df = Inr empty_frame)
   \<and> (has_column df ''birth_date'' \<longrightarrow>
        get_retiree_records L today df =
          (if rows df = [] \<and> column_dtype df ''birth_date'' = Datetime64 then Inl TypeError
           else sort_chronologically (getitem_mask aged_60 (add_age L today df))))
   \<and> (get_retiree_records L today df = Inr out \<longrightarrow>
        (\<forall>r\<in>set (rows out).
           \<exists>n. num_of (cell_of r ''Age'') = Some (of_int n) \<and> 60 \<le> n
               \<and> cell_of r ''Age'' \<noteq> PyStr ''N/A''
               \<and> calculate_age L today (cell_of r ''birth_date'') = PyInt n
               \<and> \<not> isna (cell_of r ''birth_date'')))
   \<and> (has_column df ''birth_date''
        \<and> \<not> (rows df = [] \<and> column_dtype df ''birth_date'' = Datetime64)
        \<and> (has_column df ''Year'' \<and> has_column df ''Month_numeric'' \<longrightarrow> keys_sortable df) \<longrightarrow>
        (\<exists>res. get_retiree_records L today df = Inr res
           \<and> mset (rows res) = mset (filter aged_60 (rows (add_age L today df)))))"
proof -
  have 1: "\<not> has_column df ''birth_date'' \<longrightarrow> get_retiree_records L today df = Inr empty_frame"
    by (simp add: get_retiree_records_def)
  have 2: "has_column df ''birth_date'' \<longrightarrow>
        get_retiree_records L today df =
          (if rows df = [] \<and> column_dtype df ''birth_date'' = Datetime64 then Inl TypeError
           else sort_chronologically (getitem_mask aged_60 (add_age L today df)))"
    using get_retiree_records_unfold by blast
  have 3: "get_retiree_records L today df = Inr out \<longrightarrow>
        (\<forall>r\<in>set (rows out).
           \<exists>n. num_of (cell_of r ''Age'') = Some (of_int n) \<and> 60 \<le> n
               \<and> cell_of r ''Age'' \<noteq> PyStr ''N/A''
               \<and> calculate_age L today (cell_of r ''birth_date'') = PyInt n
               \<and> \<not> isna (cell_of r ''birth_date''))"
    using retiree_rows_sound by blast
  have 4: "has_column df ''birth_date''
        \<and> \<not> (rows df = [] \<and> column_dtype df ''birth_date'' = Datetime64)
        \<and> (has_column df ''Year'' \<and> has_column df ''Month_numeric'' \<longrightarrow> keys_sortable df) \<longrightarrow>
        (\<exists>res. get_retiree_records L today df = Inr res
           \<and> mset (rows res) = mset (filter aged_60 (rows (add_age L today df))))"
    using retiree_records_result [of df L today] by blast
  from 1 2 3 4 show ?thesis by blast
qed

theorem retiree_records_aged_60_witness:
  "(\<exists>out. get_retiree_records (example_pandas empty_frame) \<lparr>year = 2024, month = 6, day = 14\<rparr>
            retirees_table = Inr out
      \<and> map (\<lambda>r. (cell_of r ''Unit Holder ID'', cell_of r ''Age'')) (rows out)
          = [(PyStr ''A1'', PyInt 74), (PyStr ''A4'', PyInt 60)])
   \<and> (\<exists>out. get_retiree_records (example_pandas empty_frame) \<lparr>year = 2024, month = 6, day = 14\<rparr>
            text_dates_table = Inr out
      \<and> map (\<lambda>r. (cell_of r ''Unit Holder ID'', cell_of r ''Age'')) (rows out)
          = [(PyStr ''A1'', PyFloat 74)])
   \<and> get_retiree_records (example_pandas empty_frame) \<lparr>year = 2024, month = 6, day = 14\<rparr>
         stored_123 = Inr empty_frame"
proof -
  let ?L = "example_pandas empty_frame"
  let ?t = "\<lparr>year = 2024, month = 6, day = 14\<rparr>"
  let ?p = "\<lambda>r. (cell_of r ''Unit Holder ID'', cell_of r ''Age'')"
  have c: "has_column retirees_table ''birth_date''" "rows retirees_table \<noteq> []"
    "\<not> has_column retirees_table ''Year''"
    by (simp_all add: retirees_table_def has_column_def)
  have d: "has_column text_dates_table ''birth_date''" "rows text_dates_table \<noteq> []"
    "\<not> has_column text_dates_table ''Year''"
    by (simp_all add: text_dates_table_def has_column_def)
  have n: "\<not> has_column stored_123 ''birth_date''"
    by (simp add: stored_123_def has_column_def)
  have e: "map ?p (filter aged_60 (rows (add_age ?L ?t retirees_table)))
           = [(PyStr ''A1'', PyInt 74), (PyStr ''A4'', PyInt 60)]"
    by (simp add: retirees_table_def add_age_def Let_def setitem_def aged_60_def cell_of_def
        calculate_age_def age_on_def apply_value_def numeric_values_def)
  have f: "map ?p (filter aged_60 (rows (add_age ?L ?t text_dates_table)))
           = [(PyStr ''A1'', PyFloat 74)]"
    by (simp add: text_dates_table_def add_age_def Let_def setitem_def aged_60_def cell_of_def
        calculate_age_def age_on_def apply_value_def numeric_values_def example_pandas_def)
  have s: "sort_chronologically (getitem_mask aged_60 (add_age ?L ?t retirees_table))
           = Inr (getitem_mask aged_60 (add_age ?L ?t retirees_table))"
    using c(3) by (simp add: sort_chronologically_def has_column_getitem_mask has_column_add_age)
  have s': "sort_chronologically (getitem_mask aged_60 (add_age ?L ?t text_dates_table))
           = Inr (getitem_mask aged_60 (add_age ?L ?t text_dates_table))"
    using d(3) by (simp add: sort_chronologically_def has_column_getitem_mask has_column_add_age)
  show ?thesis
    using retiree_records_aged_60 [of retirees_table ?L ?t] c
      retiree_records_aged_60 [of text_dates_table ?L ?t] d
      retiree_records_aged_60 [of stored_123 ?L ?t] n
    by (simp add: s s' rows_getitem_mask e f)
qed

section \<open>Effect on the table passed in\<close>

text \<open>
  Each function traced on the store leaves every object that existed before the call as
  it was, and the objects it returns hold what the function on values returns.
\<close>

lemmas obj_defs = alloc_def obj_copy_def obj_setitem_def obj_getitem_mask_def
  obj_sort_chronologically_def obj_add_age_def obj_getitem_ge_def deref_def deref2_def

lemma obj_sort_chronologically_effect:
  assumes "a < length s"
  shows "case obj_sort_chronologically a s of
           (res, s') \<Rightarrow> take (length s) s' = s \<and> length s \<le> length s'
                        \<and> deref s' res = sort_chronologically (s ! a)
                        \<and> (\<forall>b. res = Inr b \<longrightarrow> b < length s')"
  using assms
  by (auto simp: obj_sort_chronologically_def sort_chronologically_def alloc_def deref_def
      nth_append split: sum.splits)

lemma obj_search_effect:
  assumes "df < length s"
  shows "case obj_search_by_unit_holder_id L df q s of
           (res, s') \<Rightarrow> take (length s) s' = s
                        \<and> deref2 s' res = search_by_unit_holder_id L (s ! df) q"
proof (cases "has_column (s ! df) ''Unit Holder ID''")
  case False
  then show ?thesis
    by (simp add: obj_search_by_unit_holder_id_def search_by_unit_holder_id_def alloc_def
        deref2_def nth_append)
next
  case True
  define A where
    "A = setitem ''Unit Holder ID'' Object
           (\<lambda>r. PyStr (id_text L (cell_of r ''Unit Holder ID''))) (s ! df)"
  define B where
    "B = getitem_mask (\<lambda>r. cell_of r ''Unit Holder ID'' = PyStr (id_text L q)) A"
  define t where "t = s @ [A, B, B]"
  have t: "Suc (Suc (length s)) < length t" "t ! Suc (Suc (length s)) = B"
    "take (length s) t = s" "length s \<le> length t"
    by (simp_all add: t_def nth_append)
  have obj: "obj_search_by_unit_holder_id L df q s =
      (if length (rows B) = 0
       then (Inr (length t, Suc (length t)), t @ [empty_frame, empty_frame])
       else (case obj_sort_chronologically (Suc (Suc (length s))) t of
               (Inl e, s') \<Rightarrow> (Inl e, s')
             | (Inr all_results, s') \<Rightarrow>
                 (case iloc_last (s' ! all_results) of
                    Inl e \<Rightarrow> (Inl e, s')
                  | Inr f \<Rightarrow>
                      (let (latest_record, s') = alloc f s'
                       in (Inr (latest_record, all_results), s')))))"
    using True assms
    by (simp add: obj_search_by_unit_holder_id_def alloc_def obj_copy_def obj_setitem_def
        obj_getitem_mask_def Let_def nth_append A_def B_def t_def)
  have pure: "search_by_unit_holder_id L (s ! df) q =
      (if length (rows B) = 0 then Inr (empty_frame, empty_frame)
       else (case sort_chronologically B of
               Inl e \<Rightarrow> Inl e
             | Inr all_results \<Rightarrow>
                 (case iloc_last all_results of
                    Inl e \<Rightarrow> Inl e
                  | Inr latest_record \<Rightarrow> Inr (latest_record, all_results))))"
    using True by (simp add: search_by_unit_holder_id_def Let_def A_def B_def)
  show ?thesis
  proof (cases "length (rows B) = 0")
    case True
    then show ?thesis
      by (simp add: obj pure deref2_def nth_append t)
  next
    case False
    obtain res s' where r: "obj_sort_chronologically (Suc (Suc (length s))) t = (res, s')"
      by (cases "obj_sort_chronologically (Suc (Suc (length s))) t")
    from obj_sort_chronologically_effect [OF t(1)] r
    have e: "take (length t) s' = t" "length t \<le> length s'"
      "deref s' res = sort_chronologically B" "\<forall>b. res = Inr b \<longrightarrow> b < length s'"
      by (simp_all add: t)
    have p: "take (length s) s' = s"
    proof -
      have "take (length s) (take (length t) s') = s"
        by (simp only: e(1) t(3))
      then show ?thesis by (simp add: t_def min_def)
    qed
    have le: "length s \<le> length s'"
      using e(2) t(4) by simp
    show ?thesis
    proof (cases res)
      case (Inl x)
      then have "sort_chronologically B = Inl x"
        using e(3) by (simp add: deref_def)
      then show ?thesis
        using False Inl by (simp add: obj pure r deref2_def p)
    next
      case (Inr b)
      then have b: "b < length s'" "sort_chronologically B = Inr (s' ! b)"
        using e(3,4) by (simp_all add: deref_def)
      show ?thesis
        using False Inr b le
        by (simp add: obj pure r deref2_def p nth_append alloc_def split: sum.splits)
    qed
  qed
qed

lemma obj_withdrawal_effect:
  assumes "df < length s"
  shows "case obj_get_withdrawal_records L today df s of
           (res, s') \<Rightarrow> take (length s) s' = s
                        \<and> deref s' res = get_withdrawal_records L today (s ! df)"
  using assms
  by (auto simp: obj_get_withdrawal_records_def get_withdrawal_records_def obj_defs
      Let_def nth_append sort_chronologically_def add_age_def getitem_mask_def setitem_def
      has_column_def
      split: sum.splits prod.splits if_splits)

lemma obj_retiree_effect:
  assumes "df < length s"
  shows "case obj_get_retiree_records L today df s of
           (res, s') \<Rightarrow> take (length s) s' = s
                        \<and> deref s' res = get_retiree_records L today (s ! df)"
  using assms
  by (auto simp: obj_get_retiree_records_def get_retiree_records_def obj_defs
      Let_def nth_append sort_chronologically_def add_age_def
      has_column_def
      split: sum.splits prod.splits if_splits)


text \<open>
  An item assignment does change the object it is applied to: assigning the \<open>Age\<close> column
  to the table itself, without the copy, alters the table.
\<close>

lemma obj_setitem_mutates:
  "obj_add_age (example_pandas empty_frame) \<lparr>year = 2024, month = 6, day = 14\<rparr> 0
     [retirees_table] ! 0 \<noteq> retirees_table"
  by (simp add: obj_add_age_def Let_def obj_setitem_def setitem_def retirees_table_def)

lemma unchanged_prefix: "take (length s) s' = s \<Longrightarrow> a < length s \<Longrightarrow> s' ! a = s ! a"
  by (metis nth_take)

text \<open>
  Claim C10. A call of the search, of the withdrawal filter or of the retiree filter on
  the table at reference \<open>df\<close> leaves that table as it was: the object at \<open>df\<close> after
  the call is the object before it, with no column added and no cell altered, and so is
  every other object that existed before the call. This holds also when the call raises.
  The returned references denote the results of the functions on values.
\<close>

theorem query_functions_leave_dataset_unchanged:
  assumes "df < length s"
  shows "(case obj_search_by_unit_holder_id L df q s of
            (res, s') \<Rightarrow> s' ! df = s ! df \<and> take (length s) s' = s
                         \<and> deref2 s' res = search_by_unit_holder_id L (s ! df) q)
         \<and> (case obj_get_withdrawal_records L today df s of
              (res, s') \<Rightarrow> s' ! df = s ! df \<and> take (length s) s' = s
                           \<and> deref s' res = get_withdrawal_records L today (s ! df))
         \<and> (case obj_get_retiree_records L today df s of
              (res, s') \<Rightarrow> s' ! df = s ! df \<and> take (length s) s' = s
                           \<and> deref s' res = get_retiree_records L today (s ! df))"
  using obj_search_effect [OF assms, of L q] obj_withdrawal_effect [OF assms, of L today]
    obj_retiree_effect [OF assms, of L today] assms
  by (auto simp: unchanged_prefix split: prod.splits)

theorem query_functions_leave_dataset_unchanged_witness:
  "(case obj_search_by_unit_holder_id (example_pandas empty_frame) 0 (PyStr ''A1'')
           [two_periods_raw, retirees_table] of
      (res, s') \<Rightarrow> s' ! 0 = two_periods_raw
                   \<and> take 2 s' = [two_periods_raw, retirees_table]
                   \<and> deref2 s' res =
                       search_by_unit_holder_id (example_pandas empty_frame) two_periods_raw
                         (PyStr ''A1''))
   \<and> (case obj_get_withdrawal_records (example_pandas empty_frame)
             \<lparr>year = 2024, month = 6, day = 14\<rparr> 0 [two_periods_raw, retirees_table] of
        (res, s') \<Rightarrow> s' ! 0 = two_periods_raw
                     \<and> take 2 s' = [two_periods_raw, retirees_table]
                     \<and> deref s' res =
                         get_withdrawal_records (example_pandas empty_frame)
                           \<lparr>year = 2024, month = 6, day = 14\<rparr> two_periods_raw)
   \<and> (case obj_get_retiree_records (example_pandas empty_frame)
             \<lparr>year = 2024, month = 6, day = 14\<rparr> (Suc 0) [two_periods_raw, retirees_table] of
        (res, s') \<Rightarrow> s' ! Suc 0 = retirees_table
                     \<and> take 2 s' = [two_periods_raw, retirees_table]
                     \<and> deref s' res =
                         get_retiree_records (example_pandas empty_frame)
                           \<lparr>year = 2024, month = 6, day = 14\<rparr> retirees_table)"
  using query_functions_leave_dataset_unchanged
      [of 0 "[two_periods_raw, retirees_table]" "example_pandas empty_frame" "PyStr ''A1''"
          "\<lparr>year = 2024, month = 6, day = 14\<rparr>"]
    query_functions_leave_dataset_unchanged
      [of "Suc 0" "[two_periods_raw, retirees_table]" "example_pandas empty_frame" "PyStr ''A1''"
          "\<lparr>year = 2024, month = 6, day = 14\<rparr>"]
  by (simp add: numeral_2_eq_2 split: prod.splits)

section \<open>The exported records\<close>

lemma strip_A12: "strip ''A12'' = ''A12''"
  by code_simp

lemma strip_A12_padded: "strip '' A12 '' = ''A12''"
  by code_simp

lemma validate_A12: "validate_unit_holder_id ''A12'' = (True, ''A12'')"
  by (simp add: validate_unit_holder_id_def strip_A12)

text \<open>
  The exported frame has the columns of the loaded table in its order, and under
  \<open>Month\<close> it holds the text kept in \<open>Month_original\<close>, not the numeric rank.
\<close>

lemma columns_export_records:
  "export_records df records = Inr e \<Longrightarrow>
   columns e = (if ''Month_original'' \<in> set (columns df) \<and> ''Month'' \<notin> set (columns df)
                then columns df @ [''Month''] else columns df)"
  by (auto simp: export_records_def getitem_columns_def has_column_def setitem_def
      split: if_splits)

lemma export_records_month:
  assumes "export_records df records = Inr e" and "has_column df ''Month_original''"
    and "r \<in> set (rows e)"
  shows "cell_of r ''Month'' = cell_of r ''Month_original''"
  using assms
  by (auto simp: export_records_def getitem_columns_def has_column_def setitem_def cell_of_def
      split: if_splits)

lemma padded_loaded_id:
  "column_cells ''Unit Holder ID''
     (fst (load_data (example_pandas padded_id_raw) [''records.csv''])) = [PyStr '' A12 '']"
  by (simp add: load_eval padded_id_raw_def csv_name month_jan column_cells_def)

lemmas lookup_eval = search_by_unit_holder_id_def getitem_mask_def id_text_def
  iloc_last_def export_records_def getitem_columns_def

text \<open>
  The latest record that the lookup page offers for download comes from the copy in
  which the search replaced each identifier by its trimmed string form.
\<close>

lemma padded_page_found:
  "case records_lookup_tab (example_pandas padded_id_raw)
      (fst (load_data (example_pandas padded_id_raw) [''records.csv''])) ''A12'' of
     Record_found latest_record all_records export_latest export_all \<Rightarrow>
       column_cells ''Unit Holder ID'' export_latest = [PyStr ''A12'']
       \<and> columns export_latest
           = [''Unit Holder ID'', ''Year'', ''Month'', ''Month_original'', ''Month_numeric'']
       \<and> column_cells ''Month'' export_latest = [PyStr ''Jan'']
   | _ \<Rightarrow> False"
  by (simp add: records_lookup_tab_def validate_A12)
    (simp add: load_eval lookup_eval padded_id_raw_def csv_name month_jan
      strip_A12 strip_A12_padded column_cells_def)

text \<open>
  Claim C5 at a file whose identifier is padded with spaces. The lookup of \<open>A12\<close> shows
  the same page, with the same frames behind the download buttons, on the table loaded
  from the file holding \<open>" A12 "\<close> and on the table loaded from the file holding
  \<open>"A12"\<close>. The exported file is written from that frame alone, so it is the same for
  both tables, and loading it again cannot give back the identifier of both.
\<close>

theorem lookup_export_drops_identifier_padding:
  "records_lookup_tab (example_pandas padded_id_raw)
      (fst (load_data (example_pandas padded_id_raw) [''records.csv''])) ''A12''
   = records_lookup_tab (example_pandas plain_id_raw)
      (fst (load_data (example_pandas plain_id_raw) [''records.csv''])) ''A12''
   \<and> column_cells ''Unit Holder ID''
        (fst (load_data (example_pandas padded_id_raw) [''records.csv''])) = [PyStr '' A12 '']
   \<and> column_cells ''Unit Holder ID''
        (fst (load_data (example_pandas plain_id_raw) [''records.csv''])) = [PyStr ''A12'']"
  by (simp add: records_lookup_tab_def validate_A12)
    (simp add: load_eval lookup_eval padded_id_raw_def plain_id_raw_def csv_name month_jan
      strip_A12 strip_A12_padded column_cells_def)

end
